theory Spec2Isabelle
  imports Complex_Main "HOL-Library.Char_ord" "HOL-Library.List_Lexorder"
begin

section \<open>Exceptions, responses and the stored state\<close>

text \<open>
  The exceptions that the handlers of \<^verbatim>\<open>api/views.py\<close> and the serializers of
  \<^verbatim>\<open>api/serializers.py\<close> can raise. \<open>ValidationError\<close> carries the names of the
  offending fields (\<open>non_field_errors\<close> for an object-level error). The framework's
  exception handler turns \<open>ValidationError\<close> into 400, \<open>Http404\<close> into 404 and
  \<open>PermissionDenied\<close> into 403; any other exception is not handled and the server
  answers 500.
\<close>

datatype exn =
    ValidationError "string list"
  | Http404
  | PermissionDenied
  | MethodNotAllowed
  | DoesNotExist
  | MultipleObjectsReturned
  | IntegrityError
  | AssertionError

fun exception_handler :: "exn \<Rightarrow> nat" where
  "exception_handler (ValidationError fs) = 400"
| "exception_handler Http404 = 404"
| "exception_handler PermissionDenied = 403"
| "exception_handler MethodNotAllowed = 405"
| "exception_handler DoesNotExist = 500"
| "exception_handler MultipleObjectsReturned = 500"
| "exception_handler IntegrityError = 500"
| "exception_handler AssertionError = 500"

text \<open>
  The JSON values of the bodies: a dictionary, a list, a string or null. Scalar fields
  of a request (a name, a year, a score) are modelled at the type of their field.
\<close>

datatype json =
    JNull
  | JStr string
  | JList "json list"
  | JObj "(string \<times> json) list"

datatype response = Response json nat

fun http_status :: "exn + response \<Rightarrow> nat" where
  "http_status (Inl e) = exception_handler e"
| "http_status (Inr (Response body code)) = code"

datatype http_method = GET | POST | PUT | PATCH | DELETE

text \<open>
  The rows of the tables. \<^verbatim>\<open>users/models.py\<close> is not among the sources; the fields of
  a user are those that \<^verbatim>\<open>UserSerializer.Meta.fields\<close> lists, with the primary key.
  The other records follow \<^verbatim>\<open>reviews/models.py\<close>: slugs are the primary keys of
  \<open>Genre\<close> and \<open>Category\<close>, the other models have the automatic integer key, and a
  foreign key holds the key of the row it points to.
\<close>

record user =
  user_id :: nat
  user_username :: string
  user_email :: string
  user_first_name :: string
  user_last_name :: string
  user_bio :: string
  user_role :: string

record category =
  category_name :: string
  category_slug :: string

record genre =
  genre_name :: string
  genre_slug :: string

record title =
  title_id :: nat
  title_name :: string
  title_year :: int
  title_description :: string
  title_category :: "string option"

record genre_title =
  genre_title_id :: nat
  genre_title_genre :: string
  genre_title_title :: nat

record review =
  review_id :: nat
  review_title :: nat
  review_text :: string
  review_author :: nat
  review_score :: int
  review_pub_date :: nat

record comments =
  comments_id :: nat
  comments_review :: nat
  comments_text :: string
  comments_author :: nat
  comments_pub_date :: nat

record db =
  users :: "user list"
  categories :: "category list"
  genres :: "genre list"
  titles :: "title list"
  genre_titles :: "genre_title list"
  reviews :: "review list"
  comments_rows :: "comments list"

text \<open>
  What the sources import and do not contain: the helpers of \<^verbatim>\<open>api/utils.py\<close>, the
  token signer, the framework's e-mail validator, the \<open>is_admin\<close> property, the default
  role and the field validation that \<^verbatim>\<open>users/models.py\<close> declares, the object-level
  rule of \<^verbatim>\<open>api/permissions.py\<close>, the bounds that the database backend of the settings
  gives an integer column (none for a backend that does not enforce any), and the
  clock. They are parameters of the model.
\<close>

record env =
  check_confirmation_code :: "user \<Rightarrow> string \<Rightarrow> bool"
  get_confirmation_code :: "user \<Rightarrow> string"
  access_token :: "user \<Rightarrow> string"
  email_validator :: "string \<Rightarrow> bool"
  is_admin :: "user \<Rightarrow> bool"
  default_role :: string
  user_field_validation :: "db \<Rightarrow> user \<Rightarrow> string \<Rightarrow> string \<Rightarrow> string option"
  has_object_permission :: "user option \<Rightarrow> http_method \<Rightarrow> nat \<Rightarrow> bool"
  integer_field_range :: "int option \<times> int option"
  current_year :: int
  now :: nat

text \<open>
  \<^verbatim>\<open>QuerySet.get()\<close> on the rows a filter selected: no row raises \<open>DoesNotExist\<close>,
  more than one row raises \<open>MultipleObjectsReturned\<close>. \<^verbatim>\<open>get_object_or_404\<close> turns
  \<open>DoesNotExist\<close> into \<open>Http404\<close> and lets the other exception through.
\<close>

fun QuerySet_get :: "'a list \<Rightarrow> exn + 'a" where
  "QuerySet_get [] = Inl DoesNotExist"
| "QuerySet_get [x] = Inr x"
| "QuerySet_get (x # y # zs) = Inl MultipleObjectsReturned"

definition get_object_or_404 :: "'a list \<Rightarrow> exn + 'a" where
  "get_object_or_404 rows =
     (case QuerySet_get rows of
        Inl DoesNotExist \<Rightarrow> Inl Http404
      | Inl e \<Rightarrow> Inl e
      | Inr x \<Rightarrow> Inr x)"

text \<open>
  The key that the database gives a new row is above every key that the table holds.
  The model takes the next one after the highest stored key, which is the key of the
  database as long as the row with the highest key was never deleted from the table:
  the database does not give the key of a deleted row again. Where a statement names
  the key of a created row, it is for such a table.
\<close>

definition new_id :: "nat list \<Rightarrow> nat" where
  "new_id ids = Suc (fold max ids 0)"

section \<open>Token exchange\<close>

text \<open>
  \<^verbatim>\<open>TokenObtainView.post\<close> (views.py, lines 52-79). \<^verbatim>\<open>request.data\<close> is a dictionary
  with string values; \<^verbatim>\<open>.get\<close> gives \<open>None\<close> for an absent key, and Python's
  \<^verbatim>\<open>not v\<close> holds for \<open>None\<close> and for the empty string. The messages of the source
  are in Russian; they are given in English here.
\<close>

fun py_not :: "string option \<Rightarrow> bool" where
  "py_not None = True"
| "py_not (Some s) = (s = [])"

definition field_error :: "string \<Rightarrow> string \<Rightarrow> response" where
  "field_error field msg = Response (JObj [(field, JList [JStr msg])]) 400"

definition TokenObtainView_post :: "env \<Rightarrow> db \<Rightarrow> (string \<rightharpoonup> string) \<Rightarrow> exn + response" where
  "TokenObtainView_post env d data =
     (let username = data ''username'';
          confirmation_code = data ''confirmation_code''
      in if py_not confirmation_code
         then Inr (field_error ''confirmation_code'' ''Required field.'')
         else if py_not username
         then Inr (field_error ''username'' ''Required field.'')
         else (case get_object_or_404
                      [u \<leftarrow> users d. Some (user_username u) = username] of
                 Inl e \<Rightarrow> Inl e
               | Inr u \<Rightarrow>
                   if \<not> check_confirmation_code env u (the confirmation_code)
                   then Inr (field_error ''confirmation_code'' ''Wrong confirmation code.'')
                   else Inr (Response (JObj [(''token'', JStr (access_token env u))]) 200)))"

section \<open>Signup\<close>

text \<open>
  \<^verbatim>\<open>UserSignUpSerializer\<close> (serializers.py, lines 11-42). The two declared fields are
  validated first: a required \<open>CharField\<close> trims its value, refuses a blank one and one
  longer than \<open>max_length\<close>; \<open>EmailField\<close> adds the e-mail validator; then
  \<open>validate_username\<close> runs on the username. The errors of all fields are raised
  together. Only then \<open>validate\<close> runs. A character of a string is a code point below
  256; \<open>is_space\<close> holds for those that Python's \<^verbatim>\<open>str.strip()\<close> removes.
\<close>

definition is_space :: "char \<Rightarrow> bool" where
  "is_space c = (c \<in> set [CHR '' '', CHR 0x09, CHR 0x0A, CHR 0x0B, CHR 0x0C, CHR 0x0D,
                            CHR 0x1C, CHR 0x1D, CHR 0x1E, CHR 0x1F, CHR 0x85, CHR 0xA0])"

definition strip :: "string \<Rightarrow> string" where
  "strip s = rev (dropWhile is_space (rev (dropWhile is_space s)))"

definition CharField :: "nat option \<Rightarrow> string option \<Rightarrow> string option" where
  "CharField max_length v =
     (case v of
        None \<Rightarrow> None
      | Some s \<Rightarrow>
          (let s' = strip s
           in if s' = [] then None
              else if CHR 0x00 \<in> set s' then None
              else if (case max_length of None \<Rightarrow> False | Some n \<Rightarrow> length s' > n) then None
              else Some s'))"

definition EmailField :: "env \<Rightarrow> nat \<Rightarrow> string option \<Rightarrow> string option" where
  "EmailField env max_length v =
     (case CharField (Some max_length) v of
        None \<Rightarrow> None
      | Some s \<Rightarrow> if email_validator env s then Some s else None)"

definition validate_username :: "string \<Rightarrow> string option" where
  "validate_username username = (if username = ''me'' then None else Some username)"

definition UserSignUpSerializer_fields ::
  "env \<Rightarrow> (string \<rightharpoonup> string) \<Rightarrow> exn + (string \<times> string)" where
  "UserSignUpSerializer_fields env data =
     (let username = Option.bind (CharField (Some 150) (data ''username'')) validate_username;
          email = EmailField env 256 (data ''email'')
      in case (username, email) of
           (Some u, Some e) \<Rightarrow> Inr (u, e)
         | (None, Some e) \<Rightarrow> Inl (ValidationError [''username''])
         | (Some u, None) \<Rightarrow> Inl (ValidationError [''email''])
         | (None, None) \<Rightarrow> Inl (ValidationError [''username'', ''email'']))"

text \<open>
  \<open>validate\<close> (lines 25-36): the users whose username or e-mail is the submitted one;
  when there is one, \<^verbatim>\<open>user.get()\<close> fetches it, and raises when there are several.
\<close>

definition UserSignUpSerializer_validate ::
  "db \<Rightarrow> string \<times> string \<Rightarrow> exn + (string \<times> string)" where
  "UserSignUpSerializer_validate d data =
     (let email = snd data;
          username = fst data;
          user = [u \<leftarrow> users d. user_username u = username \<or> user_email u = email]
      in if user \<noteq> []
         then (case QuerySet_get user of
                 Inl e \<Rightarrow> Inl e
               | Inr u \<Rightarrow>
                   if user_email u \<noteq> email \<or> user_username u \<noteq> username
                   then Inl (ValidationError [''non_field_errors''])
                   else Inr data)
         else Inr data)"

text \<open>
  \<open>create\<close> (lines 38-42): \<^verbatim>\<open>get_or_create\<close> fetches the user with this username and
  e-mail or inserts it, and the confirmation code of that user is sent to the e-mail.
  The result carries the user, the new state and the message sent.
\<close>

definition User_objects_create :: "env \<Rightarrow> db \<Rightarrow> string \<Rightarrow> string \<Rightarrow> user \<times> db" where
  "User_objects_create env d username email =
     (let u = \<lparr> user_id = new_id (map user_id (users d)), user_username = username,
                 user_email = email, user_first_name = [], user_last_name = [],
                 user_bio = [], user_role = default_role env \<rparr>
      in (u, d\<lparr>users := users d @ [u]\<rparr>))"

definition UserSignUpSerializer_create ::
  "env \<Rightarrow> db \<Rightarrow> string \<times> string \<Rightarrow> exn + (user \<times> db \<times> (string \<times> string))" where
  "UserSignUpSerializer_create env d validated_data =
     (let username = fst validated_data;
          email = snd validated_data
      in case QuerySet_get [u \<leftarrow> users d. user_username u = username \<and> user_email u = email] of
           Inr u \<Rightarrow> Inr (u, d, (email, get_confirmation_code env u))
         | Inl DoesNotExist \<Rightarrow>
             (let (u, d') = User_objects_create env d username email
              in Inr (u, d', (email, get_confirmation_code env u)))
         | Inl e \<Rightarrow> Inl e)"

text \<open>
  \<^verbatim>\<open>SignUpViewSet.create\<close> (views.py, lines 35-44): \<^verbatim>\<open>is_valid(raise_exception=True)\<close>,
  then the serializer's \<open>create\<close>, then status 200 with the username and the e-mail.
  The function gives the response, the state after the request and the messages sent.
\<close>

definition SignUpViewSet_create ::
  "env \<Rightarrow> db \<Rightarrow> (string \<rightharpoonup> string) \<Rightarrow> (exn + response) \<times> db \<times> (string \<times> string) list" where
  "SignUpViewSet_create env d data =
     (case UserSignUpSerializer_fields env data of
        Inl e \<Rightarrow> (Inl e, d, [])
      | Inr attrs \<Rightarrow>
          (case UserSignUpSerializer_validate d attrs of
             Inl e \<Rightarrow> (Inl e, d, [])
           | Inr validated_data \<Rightarrow>
               (case UserSignUpSerializer_create env d validated_data of
                  Inl e \<Rightarrow> (Inl e, d, [])
                | Inr (u, d', mail) \<Rightarrow>
                    (Inr (Response (JObj [(''username'', JStr (fst validated_data)),
                                          (''email'', JStr (snd validated_data))]) 200),
                     d', [mail]))))"

section \<open>The user's own profile\<close>

text \<open>
  \<^verbatim>\<open>UserSerializer\<close> (serializers.py, lines 45-57). The serializer goes through its
  declared fields; with \<^verbatim>\<open>partial=True\<close> a field that the body does not carry is
  skipped; a carried value goes through the validation of its field and then, for
  \<open>role\<close>, through \<open>validate_role\<close>. The names of the fields that fail are collected.
\<close>

definition UserSerializer_validate_role :: "env \<Rightarrow> user \<Rightarrow> user \<Rightarrow> string \<Rightarrow> string" where
  "UserSerializer_validate_role env request_user instance role =
     (if \<not> is_admin env request_user then user_role instance else role)"

definition UserSerializer_Meta_fields :: "string list" where
  "UserSerializer_Meta_fields =
     [''username'', ''email'', ''first_name'', ''last_name'', ''bio'', ''role'']"

fun UserSerializer_to_internal_value ::
  "env \<Rightarrow> db \<Rightarrow> user \<Rightarrow> user \<Rightarrow> string list \<Rightarrow> (string \<rightharpoonup> string)
    \<Rightarrow> string list \<times> (string \<times> string) list" where
  "UserSerializer_to_internal_value env d request_user instance [] data = ([], [])"
| "UserSerializer_to_internal_value env d request_user instance (f # fs) data =
     (let (errors, ret) = UserSerializer_to_internal_value env d request_user instance fs data
      in case data f of
           None \<Rightarrow> (errors, ret)
         | Some v \<Rightarrow>
             (case user_field_validation env d instance f v of
                None \<Rightarrow> (f # errors, ret)
              | Some v' \<Rightarrow>
                  (errors,
                   (f, if f = ''role''
                       then UserSerializer_validate_role env request_user instance v'
                       else v') # ret)))"

definition user_setattr :: "string \<times> string \<Rightarrow> user \<Rightarrow> user" where
  "user_setattr kv u =
     (let f = fst kv; v = snd kv
      in if f = ''username'' then u\<lparr>user_username := v\<rparr>
         else if f = ''email'' then u\<lparr>user_email := v\<rparr>
         else if f = ''first_name'' then u\<lparr>user_first_name := v\<rparr>
         else if f = ''last_name'' then u\<lparr>user_last_name := v\<rparr>
         else if f = ''bio'' then u\<lparr>user_bio := v\<rparr>
         else if f = ''role'' then u\<lparr>user_role := v\<rparr>
         else u)"

definition user_getattr :: "user \<Rightarrow> string \<Rightarrow> string" where
  "user_getattr u f =
     (if f = ''username'' then user_username u
      else if f = ''email'' then user_email u
      else if f = ''first_name'' then user_first_name u
      else if f = ''last_name'' then user_last_name u
      else if f = ''bio'' then user_bio u
      else if f = ''role'' then user_role u
      else [])"

definition UserSerializer_data :: "user \<Rightarrow> json" where
  "UserSerializer_data u = JObj (map (\<lambda>f. (f, JStr (user_getattr u f))) UserSerializer_Meta_fields)"

text \<open>
  \<^verbatim>\<open>UserViewSet.me\<close> (views.py, lines 92-115), for the authenticated user. The action
  takes GET, PATCH and PUT. For the last two, \<^verbatim>\<open>serializer.is_valid()\<close> is called
  without \<^verbatim>\<open>raise_exception\<close> and its result is dropped; \<^verbatim>\<open>serializer.save()\<close> asserts
  that there are no errors, sets the validated attributes on the instance and stores it.
\<close>

definition UserViewSet_me ::
  "env \<Rightarrow> db \<Rightarrow> user \<Rightarrow> http_method \<Rightarrow> (string \<rightharpoonup> string) \<Rightarrow> (exn + response) \<times> db" where
  "UserViewSet_me env d request_user method data =
     (if method \<noteq> GET \<and> method \<noteq> PATCH \<and> method \<noteq> PUT then (Inl MethodNotAllowed, d)
      else if method = GET then (Inr (Response (UserSerializer_data request_user) 200), d)
      else
        (let (errors, validated_data) =
               UserSerializer_to_internal_value env d request_user request_user
                 UserSerializer_Meta_fields data
         in if errors \<noteq> [] then (Inl AssertionError, d)
            else
              (let instance = fold user_setattr validated_data request_user
               in (Inr (Response (JObj (map (\<lambda>kv. (fst kv, JStr (snd kv))) validated_data)) 200),
                   d\<lparr>users := map (\<lambda>u. if user_id u = user_id request_user then instance else u)
                                  (users d)\<rparr>))))"

section \<open>Titles\<close>

text \<open>
  The body of a request on a title: the three scalar fields at their types, and the
  values of \<open>genre\<close> and \<open>category\<close> as JSON.
\<close>

record title_data =
  data_name :: "string option"
  data_year :: "int option"
  data_description :: "string option"
  data_genre :: "json option"
  data_category :: "json option"

text \<open>
  \<^verbatim>\<open>validate_year\<close> (models.py, lines 9-11), and the integer field of the serializer,
  which carries it together with the bounds that the backend gives the column.
\<close>

definition validate_year :: "env \<Rightarrow> int \<Rightarrow> int option" where
  "validate_year env year = (if year > current_year env then None else Some year)"

definition IntegerField_year :: "env \<Rightarrow> int option \<Rightarrow> int option" where
  "IntegerField_year env v =
     (case v of
        None \<Rightarrow> None
      | Some year \<Rightarrow>
          if (case fst (integer_field_range env) of None \<Rightarrow> False | Some lo \<Rightarrow> year < lo)
             \<or> (case snd (integer_field_range env) of None \<Rightarrow> False | Some hi \<Rightarrow> year > hi)
          then None
          else validate_year env year)"

text \<open>
  \<open>SlugRelatedField\<close> with a queryset, as \<open>TitlePostSerializer\<close> declares it for
  \<open>category\<close> (serializers.py, lines 105-108): required, null refused, and the value
  looked up by slug. The slug is the primary key of the table, so the lookup finds at
  most one row. A list or a dictionary is no slug.
\<close>

fun SlugRelatedField_to_internal_value :: "'a list \<Rightarrow> ('a \<Rightarrow> string) \<Rightarrow> json \<Rightarrow> 'a option" where
  "SlugRelatedField_to_internal_value queryset slug (JStr s) = find (\<lambda>x. slug x = s) queryset"
| "SlugRelatedField_to_internal_value queryset slug JNull = None"
| "SlugRelatedField_to_internal_value queryset slug (JList xs) = None"
| "SlugRelatedField_to_internal_value queryset slug (JObj kv) = None"

definition TitlePostSerializer_category :: "db \<Rightarrow> json option \<Rightarrow> category option" where
  "TitlePostSerializer_category d v =
     (case v of
        None \<Rightarrow> None
      | Some JNull \<Rightarrow> None
      | Some j \<Rightarrow> SlugRelatedField_to_internal_value (categories d) category_slug j)"

text \<open>
  The same field with \<^verbatim>\<open>many=True\<close> for \<open>genre\<close> (lines 99-103): required, null
  refused, a string refused as not a list; each item of a list is looked up, and one
  item that is not found fails the field. An empty list is accepted. Iterating a
  dictionary gives its keys.
\<close>

fun many_to_internal_value :: "'a list \<Rightarrow> ('a \<Rightarrow> string) \<Rightarrow> json list \<Rightarrow> 'a list option" where
  "many_to_internal_value queryset slug [] = Some []"
| "many_to_internal_value queryset slug (j # js) =
     (case SlugRelatedField_to_internal_value queryset slug j of
        None \<Rightarrow> None
      | Some x \<Rightarrow>
          (case many_to_internal_value queryset slug js of
             None \<Rightarrow> None
           | Some xs \<Rightarrow> Some (x # xs)))"

definition TitlePostSerializer_genre :: "db \<Rightarrow> json option \<Rightarrow> genre list option" where
  "TitlePostSerializer_genre d v =
     (case v of
        None \<Rightarrow> None
      | Some JNull \<Rightarrow> None
      | Some (JStr s) \<Rightarrow> None
      | Some (JList js) \<Rightarrow> many_to_internal_value (genres d) genre_slug js
      | Some (JObj kv) \<Rightarrow> many_to_internal_value (genres d) genre_slug (map (\<lambda>p. JStr (fst p)) kv))"

record title_validated_data =
  validated_name :: string
  validated_year :: int
  validated_description :: string
  validated_genre :: "genre list"
  validated_category :: category

text \<open>
  The validation of a body by \<open>TitlePostSerializer\<close> on create: every declared field
  is required (\<open>id\<close> is read-only); the names of the failing fields are raised together.
\<close>

definition TitlePostSerializer_is_valid :: "env \<Rightarrow> db \<Rightarrow> title_data \<Rightarrow> exn + title_validated_data" where
  "TitlePostSerializer_is_valid env d data =
     (let name = CharField (Some 256) (data_name data);
          year = IntegerField_year env (data_year data);
          description = CharField None (data_description data);
          genre = TitlePostSerializer_genre d (data_genre data);
          category = TitlePostSerializer_category d (data_category data);
          errors = (if name = None then [''name''] else [])
                 @ (if year = None then [''year''] else [])
                 @ (if description = None then [''description''] else [])
                 @ (if genre = None then [''genre''] else [])
                 @ (if category = None then [''category''] else [])
      in if errors \<noteq> [] then Inl (ValidationError errors)
         else Inr \<lparr> validated_name = the name, validated_year = the year,
                    validated_description = the description, validated_genre = the genre,
                    validated_category = the category \<rparr>)"

text \<open>
  \<open>TitlePostSerializer.create\<close> (lines 121-134): the title is inserted with the
  validated category, then one \<open>GenreTitle\<close> row per validated genre, each genre being
  fetched again by its slug (\<open>Genre.__str__\<close> is the slug). An exception in the loop
  leaves what was inserted before it.
\<close>

fun create_genre_titles :: "db \<Rightarrow> title \<Rightarrow> genre list \<Rightarrow> (exn + title) \<times> db" where
  "create_genre_titles d t [] = (Inr t, d)"
| "create_genre_titles d t (g # gs) =
     (case get_object_or_404 [x \<leftarrow> genres d. genre_slug x = genre_slug g] of
        Inl e \<Rightarrow> (Inl e, d)
      | Inr current_genre \<Rightarrow>
          create_genre_titles
            (d\<lparr>genre_titles := genre_titles d @
                 [\<lparr> genre_title_id = new_id (map genre_title_id (genre_titles d)),
                    genre_title_genre = genre_slug current_genre,
                    genre_title_title = title_id t \<rparr>]\<rparr>)
            t gs)"

definition TitlePostSerializer_create :: "db \<Rightarrow> title_validated_data \<Rightarrow> (exn + title) \<times> db" where
  "TitlePostSerializer_create d validated_data =
     (let genres_popped = validated_genre validated_data;
          t = \<lparr> title_id = new_id (map title_id (titles d)),
                title_name = validated_name validated_data,
                title_year = validated_year validated_data,
                title_description = validated_description validated_data,
                title_category = Some (category_slug (validated_category validated_data)) \<rparr>
      in create_genre_titles (d\<lparr>titles := titles d @ [t]\<rparr>) t genres_popped)"

text \<open>
  The create action of \<open>TitleViewSet\<close>, for a caller whom the permission class admitted:
  \<^verbatim>\<open>is_valid(raise_exception=True)\<close>, then the serializer's \<open>create\<close>.
\<close>

definition TitleViewSet_create :: "env \<Rightarrow> db \<Rightarrow> title_data \<Rightarrow> (exn + title) \<times> db" where
  "TitleViewSet_create env d data =
     (case TitlePostSerializer_is_valid env d data of
        Inl e \<Rightarrow> (Inl e, d)
      | Inr validated_data \<Rightarrow> TitlePostSerializer_create d validated_data)"

text \<open>
  \<open>Title.objects.create\<close> on the model itself: the category column takes null
  (models.py, lines 45-48), and no genre row is needed.
\<close>

definition Title_objects_create :: "db \<Rightarrow> string \<Rightarrow> int \<Rightarrow> string \<Rightarrow> string option \<Rightarrow> title \<times> db" where
  "Title_objects_create d name year description category =
     (let t = \<lparr> title_id = new_id (map title_id (titles d)), title_name = name,
                 title_year = year, title_description = description,
                 title_category = category \<rparr>
      in (t, d\<lparr>titles := titles d @ [t]\<rparr>))"

text \<open>
  \<open>TitleViewSet.get_serializer_class\<close> (views.py, lines 153-156), on the name of the
  action; the router names the action of a request from its method and from whether
  the URL carries an id.
\<close>

datatype serializer_class = TitlePostSerializer | TitleSerializer

definition get_serializer_class :: "string \<Rightarrow> serializer_class" where
  "get_serializer_class action =
     (if action \<in> set [''create'', ''partial_update''] then TitlePostSerializer
      else TitleSerializer)"

fun router_action :: "http_method \<Rightarrow> bool \<Rightarrow> string option" where
  "router_action GET False = Some ''list''"
| "router_action POST False = Some ''create''"
| "router_action GET True = Some ''retrieve''"
| "router_action PUT True = Some ''update''"
| "router_action PATCH True = Some ''partial_update''"
| "router_action DELETE True = Some ''destroy''"
| "router_action m detail = None"

text \<open>
  The \<open>category\<close> and \<open>genre\<close> fields of \<open>TitleSerializer\<close> (serializers.py, lines
  79-80) are nested serializers: the value has to be a dictionary, whose \<open>name\<close> and
  \<open>slug\<close> are validated as the fields of the model (models.py, lines 14-16 and 27-29:
  a name of at most 256 characters, a slug of at most 50 characters of letters, digits,
  hyphens and underscores that no stored row has); a list of such dictionaries for
  \<open>genre\<close>. No row is looked up.
\<close>

definition json_str :: "json option \<Rightarrow> string option" where
  "json_str v = (case v of Some (JStr s) \<Rightarrow> Some s | _ \<Rightarrow> None)"

definition slug_char :: "char \<Rightarrow> bool" where
  "slug_char c = (let n = of_char c :: nat
                  in (97 \<le> n \<and> n \<le> 122) \<or> (65 \<le> n \<and> n \<le> 90) \<or> (48 \<le> n \<and> n \<le> 57)
                     \<or> c = CHR ''-'' \<or> c = CHR ''_'')"

definition SlugField :: "nat \<Rightarrow> string list \<Rightarrow> string option \<Rightarrow> string option" where
  "SlugField max_length taken v =
     (case CharField (Some max_length) v of
        None \<Rightarrow> None
      | Some s \<Rightarrow> if list_all slug_char s \<and> s \<notin> set taken then Some s else None)"

fun nested_to_internal_value :: "nat \<Rightarrow> string list \<Rightarrow> json \<Rightarrow> (string \<times> string) option" where
  "nested_to_internal_value slug_length taken (JObj kv) =
     (case (CharField (Some 256) (json_str (map_of kv ''name'')),
            SlugField slug_length taken (json_str (map_of kv ''slug''))) of
        (Some name, Some slug) \<Rightarrow> Some (name, slug)
      | _ \<Rightarrow> None)"
| "nested_to_internal_value slug_length taken JNull = None"
| "nested_to_internal_value slug_length taken (JStr s) = None"
| "nested_to_internal_value slug_length taken (JList js) = None"

definition TitleSerializer_category :: "db \<Rightarrow> json \<Rightarrow> (string \<times> string) option" where
  "TitleSerializer_category d j =
     nested_to_internal_value 50 (map category_slug (categories d)) j"

fun nested_many :: "nat \<Rightarrow> string list \<Rightarrow> json list \<Rightarrow> (string \<times> string) list option" where
  "nested_many slug_length taken [] = Some []"
| "nested_many slug_length taken (j # js) =
     (case (nested_to_internal_value slug_length taken j, nested_many slug_length taken js) of
        (Some x, Some xs) \<Rightarrow> Some (x # xs)
      | _ \<Rightarrow> None)"

definition TitleSerializer_genre :: "db \<Rightarrow> json \<Rightarrow> (string \<times> string) list option" where
  "TitleSerializer_genre d j =
     (case j of
        JList js \<Rightarrow> nested_many 50 (map genre_slug (genres d)) js
      | _ \<Rightarrow> None)"

text \<open>
  What a serializer class makes of a submitted \<open>category\<close> value and of a submitted
  \<open>genre\<close> value: a stored row found by its slug, the data of a nested object, or a
  validation error.
\<close>

datatype 'a related = Row 'a | Nested "string \<times> string"

definition category_to_internal_value :: "serializer_class \<Rightarrow> db \<Rightarrow> json \<Rightarrow> category related option" where
  "category_to_internal_value cls d j =
     (case cls of
        TitlePostSerializer \<Rightarrow> map_option Row (TitlePostSerializer_category d (Some j))
      | TitleSerializer \<Rightarrow> map_option Nested (TitleSerializer_category d j))"

definition genre_to_internal_value :: "serializer_class \<Rightarrow> db \<Rightarrow> json \<Rightarrow> genre related list option" where
  "genre_to_internal_value cls d j =
     (case cls of
        TitlePostSerializer \<Rightarrow> map_option (map Row) (TitlePostSerializer_genre d (Some j))
      | TitleSerializer \<Rightarrow> map_option (map Nested) (TitleSerializer_genre d j))"

section \<open>Reviews and comments\<close>

text \<open>
  The body of a request on a review, and on a comment: the text, the score, and an
  \<open>author\<close> value that the body may carry. \<open>ReviewSerializer\<close> and
  \<open>CommentSerializer\<close> declare \<open>author\<close> (and \<open>title\<close>) read-only, so the validation
  reads \<open>text\<close> and \<open>score\<close> only. The score is a choice among the keys of
  \<open>SCORE_CHOICES\<close> (models.py, lines 68-79). With \<open>partial\<close> an absent field is
  skipped; otherwise it is required.
\<close>

record review_data =
  data_text :: "string option"
  data_score :: "int option"
  data_author :: "string option"

definition SCORE_CHOICES :: "int list" where
  "SCORE_CHOICES = [1, 2, 3, 4, 5, 6, 7, 8, 9, 10]"

definition ChoiceField_score :: "int option \<Rightarrow> int option" where
  "ChoiceField_score v =
     (case v of None \<Rightarrow> None | Some n \<Rightarrow> if n \<in> set SCORE_CHOICES then Some n else None)"

definition ReviewSerializer_to_internal_value ::
  "bool \<Rightarrow> review_data \<Rightarrow> exn + (string option \<times> int option)" where
  "ReviewSerializer_to_internal_value partial data =
     (let text = (if partial \<and> data_text data = None then Some None
                  else map_option Some (CharField None (data_text data)));
          score = (if partial \<and> data_score data = None then Some None
                   else map_option Some (ChoiceField_score (data_score data)));
          errors = (if text = None then [''text''] else [])
                 @ (if score = None then [''score''] else [])
      in if errors \<noteq> [] then Inl (ValidationError errors)
         else Inr (the text, the score))"

text \<open>\<open>ReviewSerializer.validate\<close> (serializers.py, lines 150-158).\<close>

definition ReviewSerializer_validate ::
  "db \<Rightarrow> http_method \<Rightarrow> nat \<Rightarrow> user \<Rightarrow> 'a \<Rightarrow> exn + 'a" where
  "ReviewSerializer_validate d method title author data =
     (if method = PATCH then Inr data
      else if [r \<leftarrow> reviews d. review_author r = user_id author \<and> review_title r = title] \<noteq> []
      then Inl (ValidationError [''non_field_errors''])
      else Inr data)"

definition ReviewSerializer_run_validation ::
  "db \<Rightarrow> http_method \<Rightarrow> nat \<Rightarrow> user \<Rightarrow> bool \<Rightarrow> review_data
    \<Rightarrow> exn + (string option \<times> int option)" where
  "ReviewSerializer_run_validation d method title request_user partial data =
     (case ReviewSerializer_to_internal_value partial data of
        Inl e \<Rightarrow> Inl e
      | Inr attrs \<Rightarrow> ReviewSerializer_validate d method title request_user attrs)"

text \<open>
  \<open>ReviewViewSet\<close> (views.py, lines 159-171). Saving a new review inserts a row; the
  table refuses a second row with the same title and author (\<open>unique_review\<close>,
  models.py, lines 101-106).
\<close>

definition ReviewViewSet_get_queryset :: "db \<Rightarrow> nat \<Rightarrow> exn + review list" where
  "ReviewViewSet_get_queryset d title_id_kwarg =
     (case get_object_or_404 [t \<leftarrow> titles d. title_id t = title_id_kwarg] of
        Inl e \<Rightarrow> Inl e
      | Inr t \<Rightarrow> Inr [r \<leftarrow> reviews d. review_title r = title_id t])"

definition Review_objects_create :: "db \<Rightarrow> review \<Rightarrow> (exn + review) \<times> db" where
  "Review_objects_create d r =
     (if [x \<leftarrow> reviews d. review_title x = review_title r \<and> review_author x = review_author r] \<noteq> []
      then (Inl IntegrityError, d)
      else (Inr r, d\<lparr>reviews := reviews d @ [r]\<rparr>))"

definition ReviewViewSet_perform_create ::
  "env \<Rightarrow> db \<Rightarrow> user \<Rightarrow> nat \<Rightarrow> string \<times> int \<Rightarrow> (exn + review) \<times> db" where
  "ReviewViewSet_perform_create env d request_user title_id_kwarg validated_data =
     (case get_object_or_404 [t \<leftarrow> titles d. title_id t = title_id_kwarg] of
        Inl e \<Rightarrow> (Inl e, d)
      | Inr t \<Rightarrow>
          Review_objects_create d
            \<lparr> review_id = new_id (map review_id (reviews d)),
              review_title = title_id t,
              review_text = fst validated_data,
              review_author = user_id request_user,
              review_score = snd validated_data,
              review_pub_date = now env \<rparr>)"

text \<open>
  The actions that \<open>ModelViewSet\<close> gives the view, run for a caller whom the permission
  class has admitted. \<open>create\<close> validates the body and then calls \<open>perform_create\<close>.
  \<open>list\<close> reads \<open>get_queryset\<close>. \<open>get_object\<close> takes the row with the given key from
  \<open>get_queryset\<close> and then checks the object-level permission; \<open>retrieve\<close>, \<open>update\<close>
  (PUT, and PATCH with \<open>partial\<close>) and \<open>destroy\<close> start with it.
\<close>

definition get_object :: "exn + 'a list \<Rightarrow> ('a \<Rightarrow> nat) \<Rightarrow> nat \<Rightarrow> ('a \<Rightarrow> bool) \<Rightarrow> exn + 'a" where
  "get_object queryset pk_of pk permitted =
     (case queryset of
        Inl e \<Rightarrow> Inl e
      | Inr rows \<Rightarrow>
          (case get_object_or_404 [x \<leftarrow> rows. pk_of x = pk] of
             Inl e \<Rightarrow> Inl e
           | Inr obj \<Rightarrow> if permitted obj then Inr obj else Inl PermissionDenied))"

definition ReviewViewSet_create ::
  "env \<Rightarrow> db \<Rightarrow> user \<Rightarrow> nat \<Rightarrow> review_data \<Rightarrow> (exn + review) \<times> db" where
  "ReviewViewSet_create env d request_user title_id_kwarg data =
     (case ReviewSerializer_run_validation d POST title_id_kwarg request_user False data of
        Inl e \<Rightarrow> (Inl e, d)
      | Inr attrs \<Rightarrow>
          ReviewViewSet_perform_create env d request_user title_id_kwarg
            (the (fst attrs), the (snd attrs)))"

definition ReviewViewSet_list :: "db \<Rightarrow> nat \<Rightarrow> exn + review list" where
  "ReviewViewSet_list d title_id_kwarg = ReviewViewSet_get_queryset d title_id_kwarg"

definition ReviewViewSet_get_object ::
  "env \<Rightarrow> db \<Rightarrow> user option \<Rightarrow> http_method \<Rightarrow> nat \<Rightarrow> nat \<Rightarrow> exn + review" where
  "ReviewViewSet_get_object env d request_user method title_id_kwarg pk =
     get_object (ReviewViewSet_get_queryset d title_id_kwarg) review_id pk
       (\<lambda>r. has_object_permission env request_user method (review_author r))"

definition ReviewViewSet_retrieve :: "env \<Rightarrow> db \<Rightarrow> user option \<Rightarrow> nat \<Rightarrow> nat \<Rightarrow> exn + review" where
  "ReviewViewSet_retrieve env d request_user title_id_kwarg pk =
     ReviewViewSet_get_object env d request_user GET title_id_kwarg pk"

definition ReviewViewSet_update ::
  "env \<Rightarrow> db \<Rightarrow> user \<Rightarrow> http_method \<Rightarrow> nat \<Rightarrow> nat \<Rightarrow> review_data \<Rightarrow> (exn + review) \<times> db" where
  "ReviewViewSet_update env d request_user method title_id_kwarg pk data =
     (case ReviewViewSet_get_object env d (Some request_user) method title_id_kwarg pk of
        Inl e \<Rightarrow> (Inl e, d)
      | Inr instance \<Rightarrow>
          (case ReviewSerializer_run_validation d method title_id_kwarg request_user
                  (method = PATCH) data of
             Inl e \<Rightarrow> (Inl e, d)
           | Inr attrs \<Rightarrow>
               (let r = instance
                      \<lparr> review_text := (case fst attrs of None \<Rightarrow> review_text instance | Some s \<Rightarrow> s),
                        review_score := (case snd attrs of None \<Rightarrow> review_score instance | Some n \<Rightarrow> n) \<rparr>
                in (Inr r,
                    d\<lparr>reviews := map (\<lambda>x. if review_id x = review_id r then r else x) (reviews d)\<rparr>))))"

text \<open>
  Deleting a row (\<open>instance.delete()\<close>) follows the \<open>on_delete\<close> of the foreign keys
  that point to it (models.py): \<open>Comments.review\<close>, \<open>Review.title\<close> and
  \<open>GenreTitle.title\<close> are \<open>CASCADE\<close>, \<open>Title.category\<close> is \<open>SET_NULL\<close>.
\<close>

definition Review_delete :: "db \<Rightarrow> review \<Rightarrow> db" where
  "Review_delete d r =
     d\<lparr> comments_rows := [c \<leftarrow> comments_rows d. comments_review c \<noteq> review_id r],
        reviews := [x \<leftarrow> reviews d. review_id x \<noteq> review_id r] \<rparr>"

definition Title_delete :: "db \<Rightarrow> title \<Rightarrow> db" where
  "Title_delete d t =
     (let collected = [r \<leftarrow> reviews d. review_title r = title_id t]
      in d\<lparr> comments_rows :=
               [c \<leftarrow> comments_rows d. comments_review c \<notin> set (map review_id collected)],
             reviews := [r \<leftarrow> reviews d. review_id r \<notin> set (map review_id collected)],
             genre_titles := [g \<leftarrow> genre_titles d. genre_title_title g \<noteq> title_id t],
             titles := [x \<leftarrow> titles d. title_id x \<noteq> title_id t] \<rparr>)"

definition Category_delete :: "db \<Rightarrow> category \<Rightarrow> db" where
  "Category_delete d c =
     d\<lparr> titles := map (\<lambda>t. if title_category t = Some (category_slug c)
                            then t\<lparr>title_category := None\<rparr> else t) (titles d),
        categories := [x \<leftarrow> categories d. category_slug x \<noteq> category_slug c] \<rparr>"

definition ReviewViewSet_destroy ::
  "env \<Rightarrow> db \<Rightarrow> user \<Rightarrow> nat \<Rightarrow> nat \<Rightarrow> (exn + unit) \<times> db" where
  "ReviewViewSet_destroy env d request_user title_id_kwarg pk =
     (case ReviewViewSet_get_object env d (Some request_user) DELETE title_id_kwarg pk of
        Inl e \<Rightarrow> (Inl e, d)
      | Inr instance \<Rightarrow> (Inr (), Review_delete d instance))"

text \<open>
  \<open>CommentViewSet\<close> (views.py, lines 174-190) and \<open>CommentSerializer\<close>
  (serializers.py, lines 161-172), whose only writable field is \<open>text\<close>.
\<close>

definition CommentViewSet_get_queryset :: "db \<Rightarrow> nat \<Rightarrow> nat \<Rightarrow> exn + comments list" where
  "CommentViewSet_get_queryset d title_id_kwarg review_id_kwarg =
     (case get_object_or_404 [t \<leftarrow> titles d. title_id t = title_id_kwarg] of
        Inl e \<Rightarrow> Inl e
      | Inr t \<Rightarrow>
          (case get_object_or_404
                  [r \<leftarrow> [r \<leftarrow> reviews d. review_title r = title_id t]. review_id r = review_id_kwarg] of
             Inl e \<Rightarrow> Inl e
           | Inr r \<Rightarrow> Inr [c \<leftarrow> comments_rows d. comments_review c = review_id r]))"

definition CommentSerializer_to_internal_value :: "bool \<Rightarrow> review_data \<Rightarrow> exn + string option" where
  "CommentSerializer_to_internal_value partial data =
     (if partial \<and> data_text data = None then Inr None
      else (case CharField None (data_text data) of
              None \<Rightarrow> Inl (ValidationError [''text''])
            | Some s \<Rightarrow> Inr (Some s)))"

definition CommentViewSet_perform_create ::
  "env \<Rightarrow> db \<Rightarrow> user \<Rightarrow> nat \<Rightarrow> nat \<Rightarrow> string \<Rightarrow> (exn + comments) \<times> db" where
  "CommentViewSet_perform_create env d request_user title_id_kwarg review_id_kwarg validated_text =
     (case get_object_or_404 [t \<leftarrow> titles d. title_id t = title_id_kwarg] of
        Inl e \<Rightarrow> (Inl e, d)
      | Inr t \<Rightarrow>
          (case get_object_or_404
                  [r \<leftarrow> [r \<leftarrow> reviews d. review_title r = title_id t]. review_id r = review_id_kwarg] of
             Inl e \<Rightarrow> (Inl e, d)
           | Inr r \<Rightarrow>
               (let c = \<lparr> comments_id = new_id (map comments_id (comments_rows d)),
                           comments_review = review_id r,
                           comments_text = validated_text,
                           comments_author = user_id request_user,
                           comments_pub_date = now env \<rparr>
                in (Inr c, d\<lparr>comments_rows := comments_rows d @ [c]\<rparr>))))"

definition CommentViewSet_create ::
  "env \<Rightarrow> db \<Rightarrow> user \<Rightarrow> nat \<Rightarrow> nat \<Rightarrow> review_data \<Rightarrow> (exn + comments) \<times> db" where
  "CommentViewSet_create env d request_user title_id_kwarg review_id_kwarg data =
     (case CommentSerializer_to_internal_value False data of
        Inl e \<Rightarrow> (Inl e, d)
      | Inr attrs \<Rightarrow>
          CommentViewSet_perform_create env d request_user title_id_kwarg review_id_kwarg (the attrs))"

definition CommentViewSet_list :: "db \<Rightarrow> nat \<Rightarrow> nat \<Rightarrow> exn + comments list" where
  "CommentViewSet_list d title_id_kwarg review_id_kwarg =
     CommentViewSet_get_queryset d title_id_kwarg review_id_kwarg"

definition CommentViewSet_get_object ::
  "env \<Rightarrow> db \<Rightarrow> user option \<Rightarrow> http_method \<Rightarrow> nat \<Rightarrow> nat \<Rightarrow> nat \<Rightarrow> exn + comments" where
  "CommentViewSet_get_object env d request_user method title_id_kwarg review_id_kwarg pk =
     get_object (CommentViewSet_get_queryset d title_id_kwarg review_id_kwarg) comments_id pk
       (\<lambda>c. has_object_permission env request_user method (comments_author c))"

definition CommentViewSet_retrieve ::
  "env \<Rightarrow> db \<Rightarrow> user option \<Rightarrow> nat \<Rightarrow> nat \<Rightarrow> nat \<Rightarrow> exn + comments" where
  "CommentViewSet_retrieve env d request_user title_id_kwarg review_id_kwarg pk =
     CommentViewSet_get_object env d request_user GET title_id_kwarg review_id_kwarg pk"

definition CommentViewSet_update ::
  "env \<Rightarrow> db \<Rightarrow> user \<Rightarrow> http_method \<Rightarrow> nat \<Rightarrow> nat \<Rightarrow> nat \<Rightarrow> review_data
    \<Rightarrow> (exn + comments) \<times> db" where
  "CommentViewSet_update env d request_user method title_id_kwarg review_id_kwarg pk data =
     (case CommentViewSet_get_object env d (Some request_user) method title_id_kwarg
             review_id_kwarg pk of
        Inl e \<Rightarrow> (Inl e, d)
      | Inr instance \<Rightarrow>
          (case CommentSerializer_to_internal_value (method = PATCH) data of
             Inl e \<Rightarrow> (Inl e, d)
           | Inr attrs \<Rightarrow>
               (let c = instance
                      \<lparr> comments_text := (case attrs of None \<Rightarrow> comments_text instance | Some s \<Rightarrow> s) \<rparr>
                in (Inr c,
                    d\<lparr>comments_rows :=
                        map (\<lambda>x. if comments_id x = comments_id c then c else x) (comments_rows d)\<rparr>))))"

definition CommentViewSet_destroy ::
  "env \<Rightarrow> db \<Rightarrow> user \<Rightarrow> nat \<Rightarrow> nat \<Rightarrow> nat \<Rightarrow> (exn + unit) \<times> db" where
  "CommentViewSet_destroy env d request_user title_id_kwarg review_id_kwarg pk =
     (case CommentViewSet_get_object env d (Some request_user) DELETE title_id_kwarg
             review_id_kwarg pk of
        Inl e \<Rightarrow> (Inl e, d)
      | Inr instance \<Rightarrow>
          (Inr (), d\<lparr>comments_rows := [c \<leftarrow> comments_rows d. comments_id c \<noteq> comments_id instance]\<rparr>))"

section \<open>The rating of a title\<close>

text \<open>
  The queryset of \<open>TitleViewSet\<close> (views.py, lines 145-147) gives every title the
  average of the scores of its reviews, null when it has none, and orders by name. The
  average is taken as the exact quotient. \<open>TitleSerializer\<close> declares \<open>rating\<close> as a
  read-only \<open>IntegerField\<close> (serializers.py, line 81): a value that is not null is
  rendered by Python's \<^verbatim>\<open>int(value)\<close>, which drops the fraction.
\<close>

definition Avg :: "int list \<Rightarrow> rat option" where
  "Avg xs = (if xs = [] then None else Some (of_int (sum_list xs) / of_int (int (length xs))))"

definition review_scores :: "db \<Rightarrow> nat \<Rightarrow> int list" where
  "review_scores d pk = map review_score [r \<leftarrow> reviews d. review_title r = pk]"

definition TitleViewSet_queryset :: "db \<Rightarrow> (title \<times> rat option) list" where
  "TitleViewSet_queryset d =
     sort_key (\<lambda>x. title_name (fst x))
       (map (\<lambda>t. (t, Avg (review_scores d (title_id t)))) (titles d))"

definition py_int :: "rat \<Rightarrow> int" where
  "py_int q = (if q < 0 then - \<lfloor>- q\<rfloor> else \<lfloor>q\<rfloor>)"

record title_representation =
  repr_id :: nat
  repr_name :: string
  repr_year :: int
  repr_rating :: "int option"
  repr_description :: string
  repr_genre :: "genre list"
  repr_category :: "category option"

definition TitleSerializer_to_representation :: "db \<Rightarrow> title \<times> rat option \<Rightarrow> title_representation" where
  "TitleSerializer_to_representation d x =
     (let t = fst x
      in \<lparr> repr_id = title_id t,
           repr_name = title_name t,
           repr_year = title_year t,
           repr_rating = map_option py_int (snd x),
           repr_description = title_description t,
           repr_genre =
             sort_key genre_slug
               (List.map_filter (\<lambda>gt. find (\<lambda>g. genre_slug g = genre_title_genre gt) (genres d))
                  [gt \<leftarrow> genre_titles d. genre_title_title gt = title_id t]),
           repr_category =
             (case title_category t of
                None \<Rightarrow> None
              | Some slug \<Rightarrow> find (\<lambda>c. category_slug c = slug) (categories d)) \<rparr>)"

text \<open>
  The list and retrieve actions. The filter backend selects titles; its choice is a
  parameter. \<open>LimitOffsetPagination\<close> takes the window that starts at the offset and
  has the length of the limit; \<open>limit\<close> is the limit that the paginator reads from the
  request and the settings, with 0 when there is none, and then the whole selection is
  returned.
\<close>

definition TitleViewSet_list :: "db \<Rightarrow> (title \<Rightarrow> bool) \<Rightarrow> nat \<Rightarrow> nat \<Rightarrow> title_representation list" where
  "TitleViewSet_list d selected offset limit =
     (let rows = [x \<leftarrow> TitleViewSet_queryset d. selected (fst x)]
      in map (TitleSerializer_to_representation d)
           (if limit = 0 then rows else take limit (drop offset rows)))"

definition TitleViewSet_retrieve :: "db \<Rightarrow> nat \<Rightarrow> exn + title_representation" where
  "TitleViewSet_retrieve d pk =
     (case get_object_or_404 [x \<leftarrow> TitleViewSet_queryset d. title_id (fst x) = pk] of
        Inl e \<Rightarrow> Inl e
      | Inr x \<Rightarrow> Inr (TitleSerializer_to_representation d x))"

section \<open>The constraints of the tables\<close>

text \<open>
  \<open>unique_review\<close> is the constraint that \<open>Review.Meta\<close> declares (models.py, lines
  101-106): no two reviews with the same title and author. The other three say that
  a foreign key points to a stored row.
\<close>

definition unique_review :: "db \<Rightarrow> bool" where
  "unique_review d = distinct (map (\<lambda>r. (review_title r, review_author r)) (reviews d))"

definition review_title_fk :: "db \<Rightarrow> bool" where
  "review_title_fk d = list_all (\<lambda>r. review_title r \<in> set (map title_id (titles d))) (reviews d)"

definition comments_review_fk :: "db \<Rightarrow> bool" where
  "comments_review_fk d =
     list_all (\<lambda>c. comments_review c \<in> set (map review_id (reviews d))) (comments_rows d)"

definition title_category_fk :: "db \<Rightarrow> bool" where
  "title_category_fk d =
     list_all (\<lambda>t. case title_category t of
                      None \<Rightarrow> True
                    | Some slug \<Rightarrow> slug \<in> set (map category_slug (categories d))) (titles d)"

section \<open>A small instance\<close>

text \<open>
  Modelled from the spec: the user model (\<^verbatim>\<open>users/models.py\<close>) is missing from the
  sources. The spec gives a user a unique username, a unique e-mail and a role among
  user, moderator and admin; the fields of a model serializer refuse a value that
  breaks these, the user being updated left aside. This instance serves to evaluate
  the handlers on concrete requests.
\<close>

definition example_user_field_validation :: "db \<Rightarrow> user \<Rightarrow> string \<Rightarrow> string \<Rightarrow> string option" where
  "example_user_field_validation d instance field v =
     (if field = ''username''
      then (if v \<noteq> [] \<and> v \<notin> set (map user_username [u \<leftarrow> users d. user_id u \<noteq> user_id instance])
            then Some v else None)
      else if field = ''email''
      then (if v \<noteq> [] \<and> v \<notin> set (map user_email [u \<leftarrow> users d. user_id u \<noteq> user_id instance])
            then Some v else None)
      else if field = ''role''
      then (if v \<in> set [''user'', ''moderator'', ''admin''] then Some v else None)
      else Some v)"

definition example_has_object_permission :: "user option \<Rightarrow> http_method \<Rightarrow> nat \<Rightarrow> bool" where
  "example_has_object_permission caller method author =
     (method = GET \<or>
      (case caller of
         None \<Rightarrow> False
       | Some u \<Rightarrow> user_id u = author \<or> user_role u \<in> set [''moderator'', ''admin'']))"

definition example_env :: env where
  "example_env =
     \<lparr> check_confirmation_code = (\<lambda>u code. code = ''code-'' @ user_username u),
       get_confirmation_code = (\<lambda>u. ''code-'' @ user_username u),
       access_token = (\<lambda>u. ''token-'' @ user_username u),
       email_validator = (\<lambda>s. CHR ''@'' \<in> set s),
       is_admin = (\<lambda>u. user_role u = ''admin''),
       default_role = ''user'',
       user_field_validation = example_user_field_validation,
       has_object_permission = example_has_object_permission,
       integer_field_range = (Some (- 2147483648), Some 2147483647),
       current_year = 2024,
       now = 7 \<rparr>"

definition alice :: user where
  "alice = \<lparr> user_id = 1, user_username = ''alice'', user_email = ''alice@example.org'',
             user_first_name = [], user_last_name = [], user_bio = [], user_role = ''user'' \<rparr>"

definition bob :: user where
  "bob = \<lparr> user_id = 2, user_username = ''bob'', user_email = ''bob@example.org'',
           user_first_name = [], user_last_name = [], user_bio = [], user_role = ''user'' \<rparr>"

definition books :: category where
  "books = \<lparr> category_name = ''Books'', category_slug = ''books'' \<rparr>"

definition scifi :: genre where
  "scifi = \<lparr> genre_name = ''Science fiction'', genre_slug = ''scifi'' \<rparr>"

definition dune :: title where
  "dune = \<lparr> title_id = 1, title_name = ''Dune'', title_year = 1965,
            title_description = ''A novel'', title_category = Some ''books'' \<rparr>"

definition review_alice :: review where
  "review_alice = \<lparr> review_id = 1, review_title = 1, review_text = ''Slow'',
                    review_author = 1, review_score = 1, review_pub_date = 3 \<rparr>"

definition review_bob :: review where
  "review_bob = \<lparr> review_id = 2, review_title = 1, review_text = ''Long'',
                  review_author = 2, review_score = 2, review_pub_date = 4 \<rparr>"

definition comment_bob :: comments where
  "comment_bob = \<lparr> comments_id = 1, comments_review = 1, comments_text = ''Agreed'',
                   comments_author = 2, comments_pub_date = 5 \<rparr>"

definition example_db :: db where
  "example_db =
     \<lparr> users = [alice, bob],
       categories = [books],
       genres = [scifi],
       titles = [dune],
       genre_titles = [\<lparr> genre_title_id = 1, genre_title_genre = ''scifi'', genre_title_title = 1 \<rparr>],
       reviews = [review_alice, review_bob],
       comments_rows = [comment_bob] \<rparr>"

section \<open>Shared lemmas\<close>

lemmas ex_defs = example_db_def example_env_def alice_def bob_def books_def scifi_def dune_def
  review_alice_def review_bob_def comment_bob_def

lemma filter_key_distinct:
  "distinct (map f xs) \<Longrightarrow> x \<in> set xs \<Longrightarrow> [y \<leftarrow> xs. f y = f x] = [x]"
proof (induction xs)
  case Nil
  then show ?case by simp
next
  case (Cons a xs)
  show ?case
  proof (cases "a = x")
    case True
    have "f x \<notin> f ` set xs"
      using Cons.prems(1) True by simp
    then have "\<forall>y \<in> set xs. f y \<noteq> f x"
      by (metis imageI)
    then have "[y \<leftarrow> xs. f y = f x] = []"
      by (simp add: filter_empty_conv)
    then show ?thesis using True by simp
  next
    case False
    then have "x \<in> set xs" using Cons.prems(2) by simp
    moreover have "f a \<noteq> f x" using Cons.prems(1) \<open>x \<in> set xs\<close> by auto
    ultimately show ?thesis using Cons by simp
  qed
qed

lemma filter_key_absent:
  "\<not> (\<exists>x \<in> set xs. P x) \<Longrightarrow> filter P xs = []"
  by (simp add: filter_empty_conv)

lemma getattr_setattr:
  "user_getattr (user_setattr (k, v) u) f
     = (if k = f \<and> f \<in> set UserSerializer_Meta_fields then v else user_getattr u f)"
  by (simp add: user_getattr_def user_setattr_def UserSerializer_Meta_fields_def)

lemma user_id_setattr: "user_id (user_setattr kv u) = user_id u"
  by (simp add: user_setattr_def Let_def)

lemma user_id_fold_setattr: "user_id (fold user_setattr kvs u) = user_id u"
  by (induction kvs arbitrary: u) (simp_all add: user_id_setattr)

lemma getattr_fold_other:
  "f \<notin> fst ` set kvs \<Longrightarrow> user_getattr (fold user_setattr kvs u) f = user_getattr u f"
proof (induction kvs arbitrary: u)
  case Nil
  then show ?case by simp
next
  case (Cons kv kvs)
  obtain k v where kv: "kv = (k, v)" by (cases kv)
  from Cons.prems kv have "k \<noteq> f" and rest: "f \<notin> fst ` set kvs" by auto
  then show ?case using Cons.IH [OF rest] kv by (simp add: getattr_setattr)
qed

lemma getattr_fold_set:
  "distinct (map fst kvs) \<Longrightarrow> (f, v) \<in> set kvs \<Longrightarrow> f \<in> set UserSerializer_Meta_fields
     \<Longrightarrow> user_getattr (fold user_setattr kvs u) f = v"
proof (induction kvs arbitrary: u)
  case Nil
  then show ?case by simp
next
  case (Cons kv kvs)
  show ?case
  proof (cases "kv = (f, v)")
    case True
    then have "f \<notin> fst ` set kvs" using Cons.prems(1) by simp
    then show ?thesis
      using True Cons.prems(3) by (simp add: getattr_fold_other getattr_setattr)
  next
    case False
    then have "(f, v) \<in> set kvs" using Cons.prems(2) by simp
    moreover have "distinct (map fst kvs)" using Cons.prems(1) by simp
    ultimately show ?thesis using Cons.IH Cons.prems(3) by simp
  qed
qed

lemma tiv_key_in:
  "(k, x) \<in> set (snd (UserSerializer_to_internal_value env d ru inst fs data)) \<Longrightarrow> k \<in> set fs"
  by (induction fs) (fastforce split: prod.splits option.splits)+

lemma tiv_keys:
  "fst ` set (snd (UserSerializer_to_internal_value env d ru inst fs data)) \<subseteq> set fs"
  using tiv_key_in by fastforce

lemma tiv_distinct:
  "distinct fs \<Longrightarrow>
     distinct (map fst (snd (UserSerializer_to_internal_value env d ru inst fs data)))"
proof (induction fs)
  case Nil
  then show ?case by simp
next
  case (Cons f fs)
  have "f \<notin> fst ` set (snd (UserSerializer_to_internal_value env d ru inst fs data))"
    using tiv_keys [of env d ru inst fs data] Cons.prems by auto
  then show ?case using Cons by (auto split: prod.splits option.splits)
qed

lemma tiv_absent:
  "data f = None \<Longrightarrow>
     f \<notin> fst ` set (snd (UserSerializer_to_internal_value env d ru inst fs data))"
  by (induction fs) (auto split: prod.splits option.splits)

lemma tiv_present:
  "f \<in> set fs \<Longrightarrow> data f = Some v \<Longrightarrow> user_field_validation env d inst f v = Some w \<Longrightarrow>
     (f, if f = ''role'' then UserSerializer_validate_role env ru inst w else w)
       \<in> set (snd (UserSerializer_to_internal_value env d ru inst fs data))"
  by (induction fs) (auto split: prod.splits option.splits)

lemma tiv_errors_empty:
  "(\<forall>f \<in> set fs. \<forall>v. data f = Some v \<longrightarrow> user_field_validation env d inst f v \<noteq> None) \<Longrightarrow>
     fst (UserSerializer_to_internal_value env d ru inst fs data) = []"
  by (induction fs) (auto split: prod.splits option.splits)

lemma tiv_errors_member:
  "f \<in> set fs \<Longrightarrow> data f = Some v \<Longrightarrow> user_field_validation env d inst f v = None \<Longrightarrow>
     f \<in> set (fst (UserSerializer_to_internal_value env d ru inst fs data))"
  by (induction fs) (auto split: prod.splits option.splits)

lemma filter_refine:
  "filter P xs = [x] \<Longrightarrow> Q x \<Longrightarrow> (\<And>y. Q y \<Longrightarrow> P y) \<Longrightarrow> filter Q xs = [x]"
proof -
  assume a: "filter P xs = [x]" and q: "Q x" and imp: "\<And>y. Q y \<Longrightarrow> P y"
  have "filter Q xs = filter Q (filter P xs)"
    using imp by (auto simp: filter_filter intro: filter_cong)
  then show ?thesis using a q by simp
qed

lemma me_invalid_field:
  assumes "method = PATCH \<or> method = PUT"
    and "f \<in> set UserSerializer_Meta_fields" "data f = Some v"
    and "user_field_validation env d request_user f v = None"
  shows "UserViewSet_me env d request_user method data = (Inl AssertionError, d)"
proof -
  have "fst (UserSerializer_to_internal_value env d request_user request_user
               UserSerializer_Meta_fields data) \<noteq> []"
    using tiv_errors_member [where data = data and f = f and v = v and ru = request_user,
        OF assms(2,3,4)]
    by (metis empty_iff list.set(1))
  then show ?thesis
    using assms(1) by (auto simp: UserViewSet_me_def split: prod.splits)
qed

lemma me_valid_body:
  assumes m: "method = PATCH \<or> method = PUT"
    and na: "\<not> is_admin env request_user"
    and valid: "\<forall>f \<in> set UserSerializer_Meta_fields. \<forall>v. data f = Some v \<longrightarrow>
                  user_field_validation env d request_user f v \<noteq> None"
  shows "\<exists>instance body.
           UserViewSet_me env d request_user method data
             = (Inr (Response body 200),
                d\<lparr>users := map (\<lambda>u. if user_id u = user_id request_user then instance else u)
                               (users d)\<rparr>)
         \<and> user_id instance = user_id request_user
         \<and> user_role instance = user_role request_user
         \<and> (\<forall>f \<in> set UserSerializer_Meta_fields. f \<noteq> ''role'' \<longrightarrow>
               user_getattr instance f =
                 (case data f of
                    None \<Rightarrow> user_getattr request_user f
                  | Some v \<Rightarrow> the (user_field_validation env d request_user f v)))"
proof -
  let ?tiv = "UserSerializer_to_internal_value env d request_user request_user
                UserSerializer_Meta_fields data"
  let ?inst = "fold user_setattr (snd ?tiv) request_user"
  have dist: "distinct UserSerializer_Meta_fields"
    by (simp add: UserSerializer_Meta_fields_def)
  have kd: "distinct (map fst (snd ?tiv))"
    by (rule tiv_distinct [OF dist])
  have errs: "fst ?tiv = []"
    by (rule tiv_errors_empty [OF valid])
  have res: "UserViewSet_me env d request_user method data
      = (Inr (Response (JObj (map (\<lambda>kv. (fst kv, JStr (snd kv))) (snd ?tiv))) 200),
         d\<lparr>users := map (\<lambda>u. if user_id u = user_id request_user then ?inst else u) (users d)\<rparr>)"
    using m errs by (auto simp: UserViewSet_me_def split: prod.splits)
  have rolemem: "''role'' \<in> set UserSerializer_Meta_fields"
    by (simp add: UserSerializer_Meta_fields_def)
  have role: "user_role ?inst = user_role request_user"
  proof (cases "data ''role''")
    case None
    then have "user_getattr ?inst ''role'' = user_getattr request_user ''role''"
      by (intro getattr_fold_other tiv_absent)
    then show ?thesis by (simp add: user_getattr_def)
  next
    case (Some v)
    then obtain w where w: "user_field_validation env d request_user ''role'' v = Some w"
      using valid rolemem by fastforce
    have "(''role'', UserSerializer_validate_role env request_user request_user w) \<in> set (snd ?tiv)"
      using tiv_present [where data = data and f = "''role''" and ru = request_user, OF rolemem Some w]
      by simp
    then have "user_getattr ?inst ''role'' = UserSerializer_validate_role env request_user request_user w"
      using getattr_fold_set [OF kd _ rolemem] by blast
    then show ?thesis using na by (simp add: user_getattr_def UserSerializer_validate_role_def)
  qed
  have others: "\<forall>f \<in> set UserSerializer_Meta_fields. f \<noteq> ''role'' \<longrightarrow>
      user_getattr ?inst f =
        (case data f of
           None \<Rightarrow> user_getattr request_user f
         | Some v \<Rightarrow> the (user_field_validation env d request_user f v))"
  proof (intro ballI impI)
    fix f assume f: "f \<in> set UserSerializer_Meta_fields" and nr: "f \<noteq> ''role''"
    show "user_getattr ?inst f =
        (case data f of
           None \<Rightarrow> user_getattr request_user f
         | Some v \<Rightarrow> the (user_field_validation env d request_user f v))"
    proof (cases "data f")
      case None
      then have "user_getattr ?inst f = user_getattr request_user f"
        by (intro getattr_fold_other tiv_absent)
      then show ?thesis using None by simp
    next
      case (Some v)
      then obtain w where w: "user_field_validation env d request_user f v = Some w"
        using valid f by fastforce
      have "(f, w) \<in> set (snd ?tiv)"
        using tiv_present [where data = data and f = f and ru = request_user, OF f Some w] nr
        by simp
      then have "user_getattr ?inst f = w"
        using getattr_fold_set [OF kd _ f] by blast
      then show ?thesis using Some w by simp
    qed
  qed
  show ?thesis
    using res role others user_id_fold_setattr [of "snd ?tiv" request_user] by blast
qed

lemma signup_partial_match_one_row:
  assumes "UserSignUpSerializer_fields env data = Inr (u, e)"
    and "[x \<leftarrow> users d. user_username x = u \<or> user_email x = e] = [x]"
    and "user_email x \<noteq> e \<or> user_username x \<noteq> u"
  shows "SignUpViewSet_create env d data = (Inl (ValidationError [''non_field_errors'']), d, [])"
  using assms by (simp add: SignUpViewSet_create_def UserSignUpSerializer_validate_def)

lemma signup_exact_match:
  assumes "UserSignUpSerializer_fields env data = Inr (u, e)"
    and one: "[x \<leftarrow> users d. user_username x = u \<or> user_email x = e] = [x]"
    and ex: "user_email x = e" "user_username x = u"
  shows "SignUpViewSet_create env d data
           = (Inr (Response (JObj [(''username'', JStr u), (''email'', JStr e)]) 200),
              d, [(e, get_confirmation_code env x)])"
proof -
  have "[y \<leftarrow> users d. user_username y = u \<and> user_email y = e] = [x]"
    using filter_refine [OF one, of "\<lambda>y. user_username y = u \<and> user_email y = e"] ex by simp
  then show ?thesis
    using assms by (simp add: SignUpViewSet_create_def UserSignUpSerializer_validate_def
        UserSignUpSerializer_create_def)
qed

lemma create_genre_titles_result:
  "create_genre_titles d t gs = (Inr t', d') \<Longrightarrow> t' = t"
  by (induction gs arbitrary: d) (auto split: sum.splits)

lemma is_valid_category:
  "TitlePostSerializer_is_valid env d data = Inr v \<Longrightarrow>
     TitlePostSerializer_category d (data_category data) = Some (validated_category v)"
  by (auto simp: TitlePostSerializer_is_valid_def Let_def split: if_splits)

lemma is_valid_no_category:
  "TitlePostSerializer_category d (data_category data) = None \<Longrightarrow>
     \<exists>fs. TitlePostSerializer_is_valid env d data = Inl (ValidationError fs) \<and> ''category'' \<in> set fs"
  by (simp add: TitlePostSerializer_is_valid_def Let_def)

lemma is_valid_no_genre:
  "TitlePostSerializer_genre d (data_genre data) = None \<Longrightarrow>
     \<exists>fs. TitlePostSerializer_is_valid env d data = Inl (ValidationError fs) \<and> ''genre'' \<in> set fs"
  by (simp add: TitlePostSerializer_is_valid_def Let_def)

lemma get_object_or_404_Nil: "get_object_or_404 [] = Inl Http404"
  by (simp add: get_object_or_404_def)

lemma get_object_or_404_single: "get_object_or_404 [x] = Inr x"
  by (simp add: get_object_or_404_def)

lemma get_object_or_404_Inr: "get_object_or_404 rows = Inr x \<Longrightarrow> rows = [x]"
  by (cases rows rule: QuerySet_get.cases) (simp_all add: get_object_or_404_def)

lemma fold_max_ge: "(a::nat) \<le> fold max ids a"
proof (induction ids arbitrary: a)
  case Nil
  then show ?case by simp
next
  case (Cons i ids)
  have "a \<le> max i a" by simp
  also have "\<dots> \<le> fold max ids (max i a)" by (rule Cons.IH)
  finally show ?case by simp
qed

lemma new_id_bound: "(x::nat) \<in> set ids \<Longrightarrow> x \<le> fold max ids a"
proof (induction ids arbitrary: a)
  case Nil
  then show ?case by simp
next
  case (Cons i ids)
  show ?case
  proof (cases "x = i")
    case True
    have "i \<le> max i a" by simp
    also have "\<dots> \<le> fold max ids (max i a)" by (rule fold_max_ge)
    finally show ?thesis using True by simp
  next
    case False
    then show ?thesis using Cons by simp
  qed
qed

lemma new_id_fresh: "new_id ids \<notin> set ids"
proof
  assume "new_id ids \<in> set ids"
  then have "new_id ids \<le> fold max ids 0" by (rule new_id_bound)
  then show False by (simp add: new_id_def)
qed

lemma py_int_quotient:
  assumes "0 < n"
  shows "py_int (of_int s / of_int (int n))
           = (if 0 \<le> s then s div int n else - ((- s) div int n))"
proof -
  have pos: "(0::rat) < of_int (int n)" using assms by simp
  have neg: "(of_int s / of_int (int n) < (0::rat)) = (s < 0)"
    using pos by (simp add: divide_less_0_iff)
  have fl: "\<lfloor>(of_int k :: rat) / of_int (int n)\<rfloor> = k div int n" for k
    by (rule floor_divide_of_int_eq)
  have "- ((of_int s :: rat) / of_int (int n)) = of_int (- s) / of_int (int n)"
    by simp
  then show ?thesis
    unfolding py_int_def neg using fl [of s] fl [of "- s"] by auto
qed

lemma rating_of_row:
  "map_option py_int (Avg xs)
     = (if xs = [] then None
        else Some (if 0 \<le> sum_list xs then sum_list xs div int (length xs)
                   else - ((- sum_list xs) div int (length xs))))"
  using py_int_quotient [of "length xs" "sum_list xs"] by (simp add: Avg_def)

lemma queryset_rows:
  "x \<in> set (TitleViewSet_queryset d) \<Longrightarrow> snd x = Avg (review_scores d (title_id (fst x)))"
  by (auto simp: TitleViewSet_queryset_def)

lemma representation_rating:
  assumes "x \<in> set (TitleViewSet_queryset d)"
  shows "repr_rating (TitleSerializer_to_representation d x)
           = (let xs = review_scores d (repr_id (TitleSerializer_to_representation d x))
              in if xs = [] then None
                 else Some (if 0 \<le> sum_list xs then sum_list xs div int (length xs)
                            else - ((- sum_list xs) div int (length xs))))"
  using queryset_rows [OF assms] rating_of_row
  by (simp add: TitleSerializer_to_representation_def Let_def)

lemma Review_objects_create_unique:
  "unique_review d \<Longrightarrow> unique_review (snd (Review_objects_create d r))"
  by (auto simp: Review_objects_create_def unique_review_def filter_empty_conv)

lemma Review_objects_create_ids:
  "distinct (map review_id (reviews d)) \<Longrightarrow> review_id r \<notin> set (map review_id (reviews d)) \<Longrightarrow>
     distinct (map review_id (reviews (snd (Review_objects_create d r))))"
  by (auto simp: Review_objects_create_def)

lemma perform_create_cases:
  "ReviewViewSet_perform_create env d u tid v = (Inl Http404, d)
   \<or> ReviewViewSet_perform_create env d u tid v = (Inl MultipleObjectsReturned, d)
   \<or> (\<exists>t. [t \<leftarrow> titles d. title_id t = tid] = [t] \<and>
         ReviewViewSet_perform_create env d u tid v =
           Review_objects_create d
             \<lparr> review_id = new_id (map review_id (reviews d)), review_title = tid,
               review_text = fst v, review_author = user_id u, review_score = snd v,
               review_pub_date = now env \<rparr>)"
proof (cases "[t \<leftarrow> titles d. title_id t = tid]" rule: QuerySet_get.cases)
  case 1
  then show ?thesis
    by (simp add: ReviewViewSet_perform_create_def get_object_or_404_def)
next
  case (2 x)
  then have "x \<in> set [t \<leftarrow> titles d. title_id t = tid]" by simp
  then have "title_id x = tid" by simp
  then show ?thesis using 2
    by (simp add: ReviewViewSet_perform_create_def get_object_or_404_def)
next
  case (3 x y zs)
  then show ?thesis
    by (simp add: ReviewViewSet_perform_create_def get_object_or_404_def)
qed

lemma create_cases:
  "(\<exists>e. ReviewViewSet_create env d u tid data = (Inl e, d))
   \<or> (\<exists>v. ReviewSerializer_to_internal_value False data = Inr (Some (fst v), Some (snd v))
         \<and> [r \<leftarrow> reviews d. review_author r = user_id u \<and> review_title r = tid] = []
         \<and> ReviewViewSet_create env d u tid data =
           Review_objects_create d
             \<lparr> review_id = new_id (map review_id (reviews d)), review_title = tid,
               review_text = fst v, review_author = user_id u, review_score = snd v,
               review_pub_date = now env \<rparr>)"
proof (cases "ReviewSerializer_run_validation d POST tid u False data")
  case (Inl e)
  then show ?thesis by (simp add: ReviewViewSet_create_def)
next
  case (Inr attrs)
  then have tiv: "ReviewSerializer_to_internal_value False data = Inr attrs"
    and none: "[r \<leftarrow> reviews d. review_author r = user_id u \<and> review_title r = tid] = []"
    by (auto simp: ReviewSerializer_run_validation_def ReviewSerializer_validate_def
        split: sum.splits if_splits)
  from tiv obtain s n where attrs: "attrs = (Some s, Some n)"
    by (auto simp: ReviewSerializer_to_internal_value_def Let_def split: if_splits)
  have c: "ReviewViewSet_create env d u tid data = ReviewViewSet_perform_create env d u tid (s, n)"
    using Inr attrs by (simp add: ReviewViewSet_create_def)
  from perform_create_cases [of env d u tid "(s, n)"] show ?thesis
    using c tiv attrs none by auto
qed

lemma create_conflict:
  assumes "\<exists>r \<in> set (reviews d). review_title r = tid \<and> review_author r = user_id u"
  shows "\<exists>fs. ReviewViewSet_create env d u tid data = (Inl (ValidationError fs), d)"
proof -
  have ne: "[r \<leftarrow> reviews d. review_author r = user_id u \<and> review_title r = tid] \<noteq> []"
    using assms by (auto simp: filter_empty_conv)
  show ?thesis
  proof (cases "ReviewSerializer_to_internal_value False data")
    case (Inl e)
    then obtain fs where "e = ValidationError fs"
      by (auto simp: ReviewSerializer_to_internal_value_def Let_def split: if_splits)
    then show ?thesis using Inl
      by (simp add: ReviewViewSet_create_def ReviewSerializer_run_validation_def)
  next
    case (Inr attrs)
    then show ?thesis using ne
      by (simp add: ReviewViewSet_create_def ReviewSerializer_run_validation_def
          ReviewSerializer_validate_def)
  qed
qed

lemma create_unique:
  "unique_review d \<Longrightarrow> unique_review (snd (ReviewViewSet_create env d u tid data))"
  using create_cases [of env d u tid data] Review_objects_create_unique by (metis snd_conv)

lemma create_ids:
  assumes "distinct (map review_id (reviews d))"
  shows "distinct (map review_id (reviews (snd (ReviewViewSet_create env d u tid data))))"
proof -
  have "distinct (map review_id (reviews (snd (Review_objects_create d
             \<lparr> review_id = new_id (map review_id (reviews d)), review_title = tid,
               review_text = s, review_author = user_id u, review_score = n,
               review_pub_date = now env \<rparr>))))" for s n
    using assms new_id_fresh [of "map review_id (reviews d)"]
    by (intro Review_objects_create_ids) simp_all
  then show ?thesis
    using create_cases [of env d u tid data] assms by (metis snd_conv)
qed

lemma get_queryset_member:
  "ReviewViewSet_get_queryset d tid = Inr rows \<Longrightarrow> set rows \<subseteq> set (reviews d)"
  by (auto simp: ReviewViewSet_get_queryset_def split: sum.splits)

lemma get_object_member:
  "ReviewViewSet_get_object env d caller m tid pk = Inr r \<Longrightarrow> r \<in> set (reviews d)"
proof -
  assume a: "ReviewViewSet_get_object env d caller m tid pk = Inr r"
  then obtain rows where q: "ReviewViewSet_get_queryset d tid = Inr rows"
    and g: "get_object_or_404 [x \<leftarrow> rows. review_id x = pk] = Inr r"
    by (auto simp: ReviewViewSet_get_object_def get_object_def split: sum.splits if_splits)
  from get_object_or_404_Inr [OF g] have "r \<in> set [x \<leftarrow> rows. review_id x = pk]" by simp
  then show ?thesis using get_queryset_member [OF q] by auto
qed

lemma replace_row_keys:
  assumes "distinct (map review_id xs)" "r \<in> set xs"
  shows "map (\<lambda>x. if review_id x = review_id r then r\<lparr>review_text := s, review_score := n\<rparr> else x) xs
           = map (\<lambda>x. if x = r then r\<lparr>review_text := s, review_score := n\<rparr> else x) xs"
proof (rule map_cong [OF refl])
  fix x assume "x \<in> set xs"
  then have "review_id x = review_id r \<longleftrightarrow> x = r"
    using assms by (meson distinct_map inj_onD)
  then show "(if review_id x = review_id r then r\<lparr>review_text := s, review_score := n\<rparr> else x)
      = (if x = r then r\<lparr>review_text := s, review_score := n\<rparr> else x)"
    by simp
qed

lemma update_constraints:
  assumes u: "unique_review d" and i: "distinct (map review_id (reviews d))"
  shows "unique_review (snd (ReviewViewSet_update env d u m tid pk data))
       \<and> distinct (map review_id (reviews (snd (ReviewViewSet_update env d u m tid pk data))))"
proof (cases "ReviewViewSet_get_object env d (Some u) m tid pk")
  case (Inl e)
  then show ?thesis using u i by (simp add: ReviewViewSet_update_def)
next
  case (Inr r)
  note mem = get_object_member [OF Inr]
  show ?thesis
  proof (cases "ReviewSerializer_run_validation d m tid u (m = PATCH) data")
    case (Inl e)
    then show ?thesis using Inr u i by (simp add: ReviewViewSet_update_def)
  next
    case (Inr attrs)
    let ?s = "case fst attrs of None \<Rightarrow> review_text r | Some s \<Rightarrow> s"
    let ?n = "case snd attrs of None \<Rightarrow> review_score r | Some n \<Rightarrow> n"
    let ?g = "\<lambda>x. if x = r then r\<lparr>review_text := ?s, review_score := ?n\<rparr> else x"
    have rows: "reviews (snd (ReviewViewSet_update env d u m tid pk data)) = map ?g (reviews d)"
      using Inr \<open>ReviewViewSet_get_object env d (Some u) m tid pk = Inr r\<close>
        replace_row_keys [OF i mem, where s = ?s and n = ?n]
      by (simp add: ReviewViewSet_update_def Let_def)
    have k: "map (\<lambda>r. (review_title r, review_author r)) (map ?g (reviews d))
        = map (\<lambda>r. (review_title r, review_author r)) (reviews d)"
      by auto
    have j: "map review_id (map ?g (reviews d)) = map review_id (reviews d)"
      by auto
    from u have u': "distinct (map (\<lambda>r. (review_title r, review_author r)) (reviews d))"
      by (simp only: unique_review_def)
    show ?thesis
      unfolding unique_review_def rows k j using u' i by (rule conjI)
  qed
qed

lemma destroy_constraints:
  assumes u: "unique_review d" and i: "distinct (map review_id (reviews d))"
  shows "unique_review (snd (ReviewViewSet_destroy env d u tid pk))
       \<and> distinct (map review_id (reviews (snd (ReviewViewSet_destroy env d u tid pk))))"
proof (cases "ReviewViewSet_get_object env d (Some u) DELETE tid pk")
  case (Inl e)
  then show ?thesis using u i by (simp add: ReviewViewSet_destroy_def)
next
  case (Inr r)
  then show ?thesis using u i
    by (simp add: ReviewViewSet_destroy_def Review_delete_def unique_review_def
        distinct_map_filter)
qed

lemma no_title_no_reviews:
  assumes "[t \<leftarrow> titles d. title_id t = tid] = []" "review_title_fk d"
  shows "[r \<leftarrow> reviews d. P r \<and> review_title r = tid] = []"
proof -
  have "tid \<notin> set (map title_id (titles d))"
    using assms(1) by (auto simp: filter_empty_conv)
  then show ?thesis
    using assms(2) by (auto simp: review_title_fk_def list_all_iff filter_empty_conv)
qed

lemma review_tiv_error:
  "ReviewSerializer_to_internal_value partial data = Inl e \<Longrightarrow> \<exists>fs. e = ValidationError fs"
  by (auto simp: ReviewSerializer_to_internal_value_def Let_def split: if_splits)

lemma review_tiv_full:
  "ReviewSerializer_to_internal_value False data = Inr attrs \<Longrightarrow>
     \<exists>s n. attrs = (Some s, Some n)"
  by (auto simp: ReviewSerializer_to_internal_value_def Let_def split: if_splits)

lemma review_tiv_author:
  "ReviewSerializer_to_internal_value partial (data\<lparr>data_author := a\<rparr>)
     = ReviewSerializer_to_internal_value partial data"
  by (simp add: ReviewSerializer_to_internal_value_def)

lemma comment_tiv_author:
  "CommentSerializer_to_internal_value partial (data\<lparr>data_author := a\<rparr>)
     = CommentSerializer_to_internal_value partial data"
  by (simp add: CommentSerializer_to_internal_value_def)

lemma review_create_author:
  assumes "ReviewViewSet_create env d u tid data = (Inr r, d')"
  shows "review_author r = user_id u \<and> review_title r = tid \<and> d' = d\<lparr>reviews := reviews d @ [r]\<rparr>"
proof -
  from create_cases [of env d u tid data] assms obtain v where
    "Review_objects_create d
             \<lparr> review_id = new_id (map review_id (reviews d)), review_title = tid,
               review_text = fst v, review_author = user_id u, review_score = snd v,
               review_pub_date = now env \<rparr> = (Inr r, d')"
    by auto
  then show ?thesis
    by (auto simp: Review_objects_create_def split: if_splits)
qed

lemma comment_create_author:
  assumes "CommentViewSet_create env d u tid rid data = (Inr c, d')"
  shows "comments_author c = user_id u \<and> comments_review c = rid
       \<and> d' = d\<lparr>comments_rows := comments_rows d @ [c]\<rparr>"
proof -
  from assms obtain s where
    p: "CommentViewSet_perform_create env d u tid rid s = (Inr c, d')"
    by (auto simp: CommentViewSet_create_def split: sum.splits)
  then obtain t where t: "get_object_or_404 [t \<leftarrow> titles d. title_id t = tid] = Inr t"
    by (auto simp: CommentViewSet_perform_create_def split: sum.splits)
  with p obtain r where
    r: "get_object_or_404 [r \<leftarrow> [r \<leftarrow> reviews d. review_title r = title_id t]. review_id r = rid] = Inr r"
    by (auto simp: CommentViewSet_perform_create_def split: sum.splits)
  from get_object_or_404_Inr [OF r]
  have "r \<in> set [r \<leftarrow> [r \<leftarrow> reviews d. review_title r = title_id t]. review_id r = rid]"
    by simp
  then have "review_id r = rid" by simp
  then show ?thesis
    using p t r by (auto simp: CommentViewSet_perform_create_def Let_def)
qed

lemma comment_tiv_error:
  "CommentSerializer_to_internal_value partial data = Inl e \<Longrightarrow> \<exists>fs. e = ValidationError fs"
  by (auto simp: CommentSerializer_to_internal_value_def split: if_splits option.splits)

lemma review_create_invalid_body:
  assumes "ReviewSerializer_to_internal_value False data = Inl e"
  shows "ReviewViewSet_create env d u tid data = (Inl e, d) \<and> exception_handler e = 400"
proof -
  from review_tiv_error [OF assms] obtain fs where "e = ValidationError fs" by blast
  then show ?thesis
    using assms by (simp add: ReviewViewSet_create_def ReviewSerializer_run_validation_def)
qed

lemma comment_create_invalid_body:
  assumes "CommentSerializer_to_internal_value False data = Inl e"
  shows "CommentViewSet_create env d u tid rid data = (Inl e, d) \<and> exception_handler e = 400"
proof -
  from comment_tiv_error [OF assms] obtain fs where "e = ValidationError fs" by blast
  then show ?thesis
    using assms by (simp add: CommentViewSet_create_def)
qed

lemma comment_tiv_full:
  "CommentSerializer_to_internal_value False data = Inr attrs \<Longrightarrow> \<exists>s. attrs = Some s"
  by (cases "CharField None (data_text data)")
    (auto simp: CommentSerializer_to_internal_value_def)

lemma review_404_without_title:
  assumes "[t \<leftarrow> titles d. title_id t = tid] = []"
  shows "ReviewViewSet_list d tid = Inl Http404"
    and "ReviewViewSet_retrieve env d caller tid pk = Inl Http404"
    and "ReviewViewSet_update env d u m tid pk data = (Inl Http404, d)"
    and "ReviewViewSet_destroy env d u tid pk = (Inl Http404, d)"
  using assms
  by (simp_all add: ReviewViewSet_list_def ReviewViewSet_retrieve_def ReviewViewSet_update_def
      ReviewViewSet_destroy_def ReviewViewSet_get_object_def get_object_def
      ReviewViewSet_get_queryset_def get_object_or_404_Nil)

lemma comment_queryset_404:
  assumes "[t \<leftarrow> titles d. title_id t = tid] = []
           \<or> ([t \<leftarrow> titles d. title_id t = tid] = [t]
               \<and> [r \<leftarrow> reviews d. review_title r = tid \<and> review_id r = rid] = [])"
  shows "CommentViewSet_get_queryset d tid rid = Inl Http404"
proof -
  from assms show ?thesis
  proof
    assume "[t \<leftarrow> titles d. title_id t = tid] = []"
    then show ?thesis
      by (simp add: CommentViewSet_get_queryset_def get_object_or_404_Nil)
  next
    assume a: "[t \<leftarrow> titles d. title_id t = tid] = [t]
               \<and> [r \<leftarrow> reviews d. review_title r = tid \<and> review_id r = rid] = []"
    then have "t \<in> set [t \<leftarrow> titles d. title_id t = tid]" by simp
    then have "title_id t = tid" by simp
    then have "[r \<leftarrow> [r \<leftarrow> reviews d. review_title r = title_id t]. review_id r = rid] = []"
      using a by (simp add: conj_commute)
    then show ?thesis
      using a by (simp add: CommentViewSet_get_queryset_def get_object_or_404_single
          get_object_or_404_Nil)
  qed
qed

lemma comment_404_without_parent:
  assumes "CommentViewSet_get_queryset d tid rid = Inl Http404"
  shows "CommentViewSet_list d tid rid = Inl Http404"
    and "CommentViewSet_retrieve env d caller tid rid pk = Inl Http404"
    and "CommentViewSet_update env d u m tid rid pk data = (Inl Http404, d)"
    and "CommentViewSet_destroy env d u tid rid pk = (Inl Http404, d)"
  using assms
  by (simp_all add: CommentViewSet_list_def CommentViewSet_retrieve_def CommentViewSet_update_def
      CommentViewSet_destroy_def CommentViewSet_get_object_def get_object_def)

lemma comment_create_404:
  assumes "[t \<leftarrow> titles d. title_id t = tid] = []
           \<or> ([t \<leftarrow> titles d. title_id t = tid] = [t]
               \<and> [r \<leftarrow> reviews d. review_title r = tid \<and> review_id r = rid] = [])"
    and "CommentSerializer_to_internal_value False data = Inr attrs"
  shows "CommentViewSet_create env d u tid rid data = (Inl Http404, d)"
proof -
  from assms(1) have "CommentViewSet_perform_create env d u tid rid s = (Inl Http404, d)" for s
  proof
    assume "[t \<leftarrow> titles d. title_id t = tid] = []"
    then show ?thesis
      by (simp add: CommentViewSet_perform_create_def get_object_or_404_Nil)
  next
    assume a: "[t \<leftarrow> titles d. title_id t = tid] = [t]
               \<and> [r \<leftarrow> reviews d. review_title r = tid \<and> review_id r = rid] = []"
    then have "t \<in> set [t \<leftarrow> titles d. title_id t = tid]" by simp
    then have "title_id t = tid" by simp
    then have "[r \<leftarrow> [r \<leftarrow> reviews d. review_title r = title_id t]. review_id r = rid] = []"
      using a by (simp add: conj_commute)
    then show ?thesis
      using a by (simp add: CommentViewSet_perform_create_def get_object_or_404_single
          get_object_or_404_Nil)
  qed
  then show ?thesis using assms(2) by (simp add: CommentViewSet_create_def)
qed

lemma review_create_404:
  assumes nt: "[t \<leftarrow> titles d. title_id t = tid] = []" and fk: "review_title_fk d"
    and v: "ReviewSerializer_to_internal_value False data = Inr attrs"
  shows "ReviewViewSet_create env d u tid data = (Inl Http404, d)"
proof -
  have "[r \<leftarrow> reviews d. review_author r = user_id u \<and> review_title r = tid] = []"
    by (rule no_title_no_reviews [OF nt fk])
  then have "ReviewSerializer_run_validation d POST tid u False data = Inr attrs"
    using v by (simp add: ReviewSerializer_run_validation_def ReviewSerializer_validate_def)
  then show ?thesis
    using nt by (simp add: ReviewViewSet_create_def ReviewViewSet_perform_create_def
        get_object_or_404_Nil)
qed

lemma review_create_ignores_author:
  "ReviewViewSet_create env d u tid (data\<lparr>data_author := a\<rparr>) = ReviewViewSet_create env d u tid data"
  by (simp add: ReviewViewSet_create_def ReviewSerializer_run_validation_def review_tiv_author)

lemma comment_create_ignores_author:
  "CommentViewSet_create env d u tid rid (data\<lparr>data_author := a\<rparr>)
     = CommentViewSet_create env d u tid rid data"
  by (simp add: CommentViewSet_create_def comment_tiv_author)

lemma collected_ids:
  assumes "distinct (map review_id xs)" "r \<in> set xs"
  shows "review_id r \<in> set (map review_id [x \<leftarrow> xs. review_title x = k]) \<longleftrightarrow> review_title r = k"
proof
  assume "review_id r \<in> set (map review_id [x \<leftarrow> xs. review_title x = k])"
  then obtain x where x: "x \<in> set xs" "review_title x = k" "review_id x = review_id r"
    by auto
  then have "x = r" using assms by (meson distinct_map inj_onD)
  then show "review_title r = k" using x by simp
next
  assume "review_title r = k"
  then show "review_id r \<in> set (map review_id [x \<leftarrow> xs. review_title x = k])"
    using assms(2) by auto
qed

lemma Title_delete_reviews:
  assumes "distinct (map review_id (reviews d))"
  shows "reviews (Title_delete d t) = [r \<leftarrow> reviews d. review_title r \<noteq> title_id t]"
proof -
  have "[r \<leftarrow> reviews d. review_id r \<notin> set (map review_id [x \<leftarrow> reviews d. review_title x = title_id t])]
      = [r \<leftarrow> reviews d. review_title r \<noteq> title_id t]"
    by (rule filter_cong [OF refl]) (simp only: collected_ids [OF assms])
  then show ?thesis by (simp add: Title_delete_def Let_def)
qed

lemma Title_delete_comments:
  "set (comments_rows (Title_delete d t))
     = {c \<in> set (comments_rows d).
          \<not> (\<exists>r \<in> set (reviews d). review_title r = title_id t \<and> review_id r = comments_review c)}"
  by (force simp: Title_delete_def Let_def)

lemma Title_delete_review_fk:
  assumes "review_title_fk d"
  shows "review_title_fk (Title_delete d t)"
proof -
  have "review_title r \<in> title_id ` {x \<in> set (titles d). title_id x \<noteq> title_id t}"
    if r: "r \<in> set (reviews d)"
      and k: "review_id r \<notin> review_id ` {x \<in> set (reviews d). review_title x = title_id t}" for r
  proof -
    have "review_title r \<noteq> title_id t" using r k by auto
    moreover have "review_title r \<in> title_id ` set (titles d)"
      using assms r by (auto simp: review_title_fk_def list_all_iff)
    ultimately show ?thesis by auto
  qed
  then show ?thesis
    by (auto simp: review_title_fk_def Title_delete_def Let_def list_all_iff)
qed

lemma Title_delete_comments_fk:
  assumes "comments_review_fk d"
  shows "comments_review_fk (Title_delete d t)"
proof -
  have "comments_review c \<in> review_id `
          {r \<in> set (reviews d).
             review_id r \<notin> review_id ` {x \<in> set (reviews d). review_title x = title_id t}}"
    if c: "c \<in> set (comments_rows d)"
      and k: "comments_review c \<notin> review_id ` {x \<in> set (reviews d). review_title x = title_id t}"
    for c
  proof -
    from assms c obtain r where r: "r \<in> set (reviews d)" "review_id r = comments_review c"
      by (auto simp: comments_review_fk_def list_all_iff)
    then show ?thesis using k by force
  qed
  then show ?thesis
    by (auto simp: comments_review_fk_def Title_delete_def Let_def list_all_iff)
qed

lemma Review_delete_comments_fk:
  assumes "comments_review_fk d"
  shows "comments_review_fk (Review_delete d r)"
proof -
  have "comments_review c \<in> review_id ` {x \<in> set (reviews d). review_id x \<noteq> review_id r}"
    if c: "c \<in> set (comments_rows d)" and k: "comments_review c \<noteq> review_id r" for c
  proof -
    from assms c obtain x where "x \<in> set (reviews d)" "review_id x = comments_review c"
      by (auto simp: comments_review_fk_def list_all_iff)
    then show ?thesis using k by force
  qed
  then show ?thesis
    by (auto simp: comments_review_fk_def Review_delete_def list_all_iff)
qed

lemma Category_delete_fk:
  assumes "title_category_fk d"
  shows "title_category_fk (Category_delete d c)"
  using assms
  by (force simp: title_category_fk_def Category_delete_def list_all_iff split: option.splits)

lemma Category_delete_titles:
  "map (\<lambda>t. t\<lparr>title_category := None\<rparr>) (titles (Category_delete d c))
     = map (\<lambda>t. t\<lparr>title_category := None\<rparr>) (titles d)"
  "map title_category (titles (Category_delete d c))
     = map (\<lambda>t. if title_category t = Some (category_slug c) then None else title_category t)
         (titles d)"
  by (simp_all add: Category_delete_def)

section \<open>Claims\<close>

text \<open>
  C4. Token exchange. With usernames unique among the stored users and both fields of
  the request non-empty: a username that no stored user has gives 404; a stored user
  whose confirmation code does not match gives 400; a match gives 200 with a token for
  that user. A request whose confirmation code or username is absent or empty gives 400.
\<close>

theorem token_exchange_status:
  assumes uniq: "distinct (map user_username (users d))"
    and un: "data ''username'' = Some u" "u \<noteq> []"
    and cc: "data ''confirmation_code'' = Some c" "c \<noteq> []"
  shows "(\<not> (\<exists>x \<in> set (users d). user_username x = u) \<longrightarrow>
            http_status (TokenObtainView_post env d data) = 404)
       \<and> (\<forall>x \<in> set (users d). user_username x = u \<and> \<not> check_confirmation_code env x c \<longrightarrow>
            http_status (TokenObtainView_post env d data) = 400)
       \<and> (\<forall>x \<in> set (users d). user_username x = u \<and> check_confirmation_code env x c \<longrightarrow>
            TokenObtainView_post env d data
              = Inr (Response (JObj [(''token'', JStr (access_token env x))]) 200))
       \<and> (\<forall>data'. py_not (data' ''confirmation_code'') \<or> py_not (data' ''username'') \<longrightarrow>
            http_status (TokenObtainView_post env d data') = 400)"
proof (intro conjI impI ballI allI)
  assume "\<not> (\<exists>x \<in> set (users d). user_username x = u)"
  then have "[x \<leftarrow> users d. Some (user_username x) = Some u] = []"
    by (simp add: filter_empty_conv)
  then show "http_status (TokenObtainView_post env d data) = 404"
    using un cc by (simp add: TokenObtainView_post_def get_object_or_404_def)
next
  fix x assume x: "x \<in> set (users d)" and h: "user_username x = u \<and> \<not> check_confirmation_code env x c"
  have "[y \<leftarrow> users d. user_username y = user_username x] = [x]"
    using filter_key_distinct [OF uniq x] .
  then show "http_status (TokenObtainView_post env d data) = 400"
    using un cc h by (simp add: TokenObtainView_post_def field_error_def get_object_or_404_def)
next
  fix x assume x: "x \<in> set (users d)" and h: "user_username x = u \<and> check_confirmation_code env x c"
  have "[y \<leftarrow> users d. user_username y = user_username x] = [x]"
    using filter_key_distinct [OF uniq x] .
  then show "TokenObtainView_post env d data
      = Inr (Response (JObj [(''token'', JStr (access_token env x))]) 200)"
    using un cc h by (simp add: TokenObtainView_post_def get_object_or_404_def)
next
  fix data' :: "string \<rightharpoonup> string"
  assume "py_not (data' ''confirmation_code'') \<or> py_not (data' ''username'')"
  then show "http_status (TokenObtainView_post env d data') = 400"
    by (auto simp: TokenObtainView_post_def field_error_def Let_def)
qed

theorem token_exchange_status_witness:
  "http_status (TokenObtainView_post example_env example_db
      [''username'' \<mapsto> ''carol'', ''confirmation_code'' \<mapsto> ''code-carol'']) = 404
   \<and> http_status (TokenObtainView_post example_env example_db
      [''username'' \<mapsto> ''alice'', ''confirmation_code'' \<mapsto> ''nope'']) = 400
   \<and> TokenObtainView_post example_env example_db
      [''username'' \<mapsto> ''alice'', ''confirmation_code'' \<mapsto> ''code-alice'']
        = Inr (Response (JObj [(''token'', JStr ''token-alice'')]) 200)
   \<and> http_status (TokenObtainView_post example_env example_db
      [''username'' \<mapsto> ''alice'']) = 400"
proof -
  have uniq: "distinct (map user_username (users example_db))"
    by (simp add: ex_defs)
  have a: "alice \<in> set (users example_db)"
    by (simp add: ex_defs)
  have na: "user_username alice = ''alice''" by (simp add: alice_def)
  have nc: "\<not> (\<exists>x \<in> set (users example_db). user_username x = ''carol'')"
    by (simp add: ex_defs)
  have k1: "\<not> check_confirmation_code example_env alice ''nope''"
    by (simp add: ex_defs)
  have k2: "check_confirmation_code example_env alice ''code-alice''"
    by (simp add: ex_defs)
  have tk: "access_token example_env alice = ''token-alice''"
    by (simp add: ex_defs)
  let ?d1 = "[''username'' \<mapsto> ''carol'', ''confirmation_code'' \<mapsto> ''code-carol'']"
  let ?d2 = "[''username'' \<mapsto> ''alice'', ''confirmation_code'' \<mapsto> ''nope'']"
  let ?d3 = "[''username'' \<mapsto> ''alice'', ''confirmation_code'' \<mapsto> ''code-alice'']"
  have u1: "?d1 ''username'' = Some ''carol''" and c1: "?d1 ''confirmation_code'' = Some ''code-carol''"
    and u2: "?d2 ''username'' = Some ''alice''" and c2: "?d2 ''confirmation_code'' = Some ''nope''"
    and u3: "?d3 ''username'' = Some ''alice''" and c3: "?d3 ''confirmation_code'' = Some ''code-alice''"
    by simp_all
  have ne: "''carol'' \<noteq> []" "''code-carol'' \<noteq> []" "''alice'' \<noteq> []" "''nope'' \<noteq> []"
    "''code-alice'' \<noteq> []"
    by simp_all
  have t1: "http_status (TokenObtainView_post example_env example_db ?d1) = 404"
    using token_exchange_status [OF uniq u1 ne(1) c1 ne(2), of example_env] nc by blast
  have t2: "http_status (TokenObtainView_post example_env example_db ?d2) = 400"
    using token_exchange_status [OF uniq u2 ne(3) c2 ne(4), of example_env] a na k1 by blast
  have t3: "TokenObtainView_post example_env example_db ?d3
        = Inr (Response (JObj [(''token'', JStr ''token-alice'')]) 200)"
    using token_exchange_status [OF uniq u3 ne(3) c3 ne(5), of example_env] a na k2 tk by metis
  have "py_not ([''username'' \<mapsto> ''alice''] ''confirmation_code'')"
    by simp
  then have t4: "http_status (TokenObtainView_post example_env example_db
      [''username'' \<mapsto> ''alice'']) = 400"
    using token_exchange_status [OF uniq u1 ne(1) c1 ne(2), of example_env] by blast
  show ?thesis using t1 t2 t3 t4 by simp
qed

text \<open>
  C3. Signup. The claim has a request whose username is that of one stored user and
  whose e-mail is that of another rejected with 400. On such a request the filter of
  \<open>validate\<close> selects two rows and \<^verbatim>\<open>user.get()\<close> raises \<open>MultipleObjectsReturned\<close>,
  which nothing catches: the answer is 500, as here for the username of alice with the
  e-mail of bob. (When the filter selects one row the claim holds: see
  \<open>signup_partial_match_one_row\<close> and \<open>signup_exact_match\<close>.)
\<close>

theorem signup_two_rows_raise:
  "SignUpViewSet_create example_env example_db
      [''username'' \<mapsto> ''alice'', ''email'' \<mapsto> ''bob@example.org'']
     = (Inl MultipleObjectsReturned, example_db, [])
   \<and> http_status (fst (SignUpViewSet_create example_env example_db
      [''username'' \<mapsto> ''alice'', ''email'' \<mapsto> ''bob@example.org''])) = 500"
  by (simp add: SignUpViewSet_create_def UserSignUpSerializer_fields_def
      UserSignUpSerializer_validate_def CharField_def EmailField_def validate_username_def
      strip_def is_space_def ex_defs)

text \<open>
  C5, as the claim states it, fails: not every submitted role value is discarded. The
  role goes through the validation of its field before \<open>validate_role\<close> replaces it,
  and a value that this validation refuses fails the request. Here alice, who is no
  admin, sends the role \<open>superuser\<close>, which is none of the three roles, and the request
  fails; the same request without the role succeeds.
\<close>

theorem me_refused_role_fails:
  "\<not> is_admin example_env alice
   \<and> UserViewSet_me example_env example_db alice PATCH
         [''role'' \<mapsto> ''superuser'', ''bio'' \<mapsto> ''Reader'']
       = (Inl AssertionError, example_db)
   \<and> (\<exists>body d'. UserViewSet_me example_env example_db alice PATCH [''bio'' \<mapsto> ''Reader'']
                   = (Inr (Response body 200), d'))"
  by (simp add: UserViewSet_me_def UserSerializer_Meta_fields_def
      example_user_field_validation_def ex_defs)

text \<open>
  C5, amended. A non-admin caller updates the own profile with PATCH or PUT. When every
  field that the body carries passes the validation of its field, the answer is 200,
  the stored row of the caller keeps its key and its role whatever role the body
  carried, every other field that the body carried holds the validated value, and
  every field that the body did not carry is as before. When the body carries a role
  that the validation of the field refuses, the request fails and nothing is stored.
\<close>

theorem me_role_clamp:
  assumes m: "method = PATCH \<or> method = PUT"
    and na: "\<not> is_admin env request_user"
  shows "((\<forall>f \<in> set UserSerializer_Meta_fields. \<forall>v. data f = Some v \<longrightarrow>
             user_field_validation env d request_user f v \<noteq> None) \<longrightarrow>
          (\<exists>instance body.
             UserViewSet_me env d request_user method data
               = (Inr (Response body 200),
                  d\<lparr>users := map (\<lambda>u. if user_id u = user_id request_user then instance else u)
                                 (users d)\<rparr>)
           \<and> user_id instance = user_id request_user
           \<and> user_role instance = user_role request_user
           \<and> (\<forall>f \<in> set UserSerializer_Meta_fields. f \<noteq> ''role'' \<longrightarrow>
                 user_getattr instance f =
                   (case data f of
                      None \<Rightarrow> user_getattr request_user f
                    | Some v \<Rightarrow> the (user_field_validation env d request_user f v)))))
       \<and> (\<forall>v. data ''role'' = Some v
               \<and> user_field_validation env d request_user ''role'' v = None \<longrightarrow>
             (\<exists>e. UserViewSet_me env d request_user method data = (Inl e, d)))"
proof (intro conjI impI allI)
  assume "\<forall>f \<in> set UserSerializer_Meta_fields. \<forall>v. data f = Some v \<longrightarrow>
             user_field_validation env d request_user f v \<noteq> None"
  then show "\<exists>instance body.
             UserViewSet_me env d request_user method data
               = (Inr (Response body 200),
                  d\<lparr>users := map (\<lambda>u. if user_id u = user_id request_user then instance else u)
                                 (users d)\<rparr>)
           \<and> user_id instance = user_id request_user
           \<and> user_role instance = user_role request_user
           \<and> (\<forall>f \<in> set UserSerializer_Meta_fields. f \<noteq> ''role'' \<longrightarrow>
                 user_getattr instance f =
                   (case data f of
                      None \<Rightarrow> user_getattr request_user f
                    | Some v \<Rightarrow> the (user_field_validation env d request_user f v)))"
    by (rule me_valid_body [OF m na])
next
  fix v
  assume a: "data ''role'' = Some v \<and> user_field_validation env d request_user ''role'' v = None"
  have "''role'' \<in> set UserSerializer_Meta_fields"
    by (simp add: UserSerializer_Meta_fields_def)
  then have "UserViewSet_me env d request_user method data = (Inl AssertionError, d)"
    using a m by (intro me_invalid_field [where f = "''role''" and v = v]) simp_all
  then show "\<exists>e. UserViewSet_me env d request_user method data = (Inl e, d)"
    by blast
qed

theorem me_role_clamp_witness:
  "\<not> is_admin example_env alice
   \<and> (\<exists>instance body.
         UserViewSet_me example_env example_db alice PATCH
             [''role'' \<mapsto> ''admin'', ''bio'' \<mapsto> ''Reader'']
           = (Inr (Response body 200),
              example_db\<lparr>users := map (\<lambda>u. if user_id u = user_id alice then instance else u)
                                        (users example_db)\<rparr>)
       \<and> user_role instance = ''user''
       \<and> user_bio instance = ''Reader'')
   \<and> (\<exists>e. UserViewSet_me example_env example_db alice PUT [''role'' \<mapsto> ''root'']
             = (Inl e, example_db))"
proof -
  let ?data = "[''role'' \<mapsto> ''admin'', ''bio'' \<mapsto> ''Reader'']"
  let ?bad = "[''role'' \<mapsto> ''root'']"
  have na: "\<not> is_admin example_env alice"
    by (simp add: example_env_def alice_def)
  have valid: "\<forall>f \<in> set UserSerializer_Meta_fields. \<forall>v. ?data f = Some v \<longrightarrow>
      user_field_validation example_env example_db alice f v \<noteq> None"
    by (simp add: UserSerializer_Meta_fields_def example_env_def
        example_user_field_validation_def)
  have m: "PATCH = PATCH \<or> PATCH = PUT" by simp
  have m2: "PUT = PATCH \<or> PUT = PUT" by simp
  obtain inst body where
    r: "UserViewSet_me example_env example_db alice PATCH ?data
          = (Inr (Response body 200),
             example_db\<lparr>users := map (\<lambda>u. if user_id u = user_id alice then inst else u)
                                       (users example_db)\<rparr>)"
    and role: "user_role inst = user_role alice"
    and rest: "\<forall>f \<in> set UserSerializer_Meta_fields. f \<noteq> ''role'' \<longrightarrow>
        user_getattr inst f =
          (case ?data f of
             None \<Rightarrow> user_getattr alice f
           | Some v \<Rightarrow> the (user_field_validation example_env example_db alice f v))"
    using me_role_clamp [OF m na, where data = ?data and d = example_db] valid by blast
  have "''bio'' \<in> set UserSerializer_Meta_fields"
    by (simp add: UserSerializer_Meta_fields_def)
  with rest have "user_getattr inst ''bio''
      = the (user_field_validation example_env example_db alice ''bio'' ''Reader'')"
    by fastforce
  then have bio: "user_bio inst = ''Reader''"
    by (simp add: user_getattr_def example_env_def example_user_field_validation_def)
  have ro: "user_role inst = ''user''" using role by (simp add: alice_def)
  have "?bad ''role'' = Some ''root''
      \<and> user_field_validation example_env example_db alice ''role'' ''root'' = None"
    by (simp add: example_env_def example_user_field_validation_def)
  then have bad: "\<exists>e. UserViewSet_me example_env example_db alice PUT ?bad = (Inl e, example_db)"
    using me_role_clamp [OF m2 na, where data = ?bad and d = example_db] by blast
  from na r bio ro bad show ?thesis by blast
qed

text \<open>
  C8. The claim has a PATCH or PUT to the own profile whose body fails validation
  answered with 400. \<open>me\<close> drops the result of \<^verbatim>\<open>is_valid()\<close> and calls \<^verbatim>\<open>save()\<close>, whose
  assertion fails: the answer is 500, as here when alice asks for the username of bob.
  (\<open>me_invalid_field\<close> has it for every body with a field that fails.)
\<close>

theorem me_invalid_body_raises:
  "UserViewSet_me example_env example_db alice PATCH [''username'' \<mapsto> ''bob'']
     = (Inl AssertionError, example_db)
   \<and> http_status (fst (UserViewSet_me example_env example_db alice PATCH
         [''username'' \<mapsto> ''bob''])) = 500"
  by (simp add: UserViewSet_me_def UserSerializer_Meta_fields_def
      example_user_field_validation_def ex_defs)

text \<open>
  C9, as the claim states it, fails: a create request without a category, or with a null
  one, is refused with a validation error on \<open>category\<close>, and no create request ever
  gives a title whose category is null.
\<close>

theorem title_create_without_category_refused:
  "TitleViewSet_create example_env example_db
      \<lparr> data_name = Some ''Solaris'', data_year = Some 1961, data_description = Some ''A novel'',
        data_genre = Some (JList []), data_category = None \<rparr>
     = (Inl (ValidationError [''category'']), example_db)
   \<and> TitleViewSet_create example_env example_db
      \<lparr> data_name = Some ''Solaris'', data_year = Some 1961, data_description = Some ''A novel'',
        data_genre = Some (JList []), data_category = Some JNull \<rparr>
     = (Inl (ValidationError [''category'']), example_db)
   \<and> \<not> (\<exists>env d data t d'. TitleViewSet_create env d data = (Inr t, d') \<and> title_category t = None)"
proof (intro conjI)
  show "TitleViewSet_create example_env example_db
      \<lparr> data_name = Some ''Solaris'', data_year = Some 1961, data_description = Some ''A novel'',
        data_genre = Some (JList []), data_category = None \<rparr>
     = (Inl (ValidationError [''category'']), example_db)"
    by (simp add: TitleViewSet_create_def TitlePostSerializer_is_valid_def CharField_def
        strip_def is_space_def IntegerField_year_def validate_year_def
        TitlePostSerializer_genre_def TitlePostSerializer_category_def example_env_def)
  show "TitleViewSet_create example_env example_db
      \<lparr> data_name = Some ''Solaris'', data_year = Some 1961, data_description = Some ''A novel'',
        data_genre = Some (JList []), data_category = Some JNull \<rparr>
     = (Inl (ValidationError [''category'']), example_db)"
    by (simp add: TitleViewSet_create_def TitlePostSerializer_is_valid_def CharField_def
        strip_def is_space_def IntegerField_year_def validate_year_def
        TitlePostSerializer_genre_def TitlePostSerializer_category_def example_env_def)
  show "\<not> (\<exists>env d data t d'. TitleViewSet_create env d data = (Inr t, d') \<and> title_category t = None)"
  proof
    assume "\<exists>env d data t d'. TitleViewSet_create env d data = (Inr t, d') \<and> title_category t = None"
    then obtain env d data t d' where
      c: "TitleViewSet_create env d data = (Inr t, d')" and n: "title_category t = None"
      by blast
    from c obtain v where
      "TitlePostSerializer_create d v = (Inr t, d')"
      by (auto simp: TitleViewSet_create_def split: sum.splits)
    then have "title_category t = Some (category_slug (validated_category v))"
      by (auto simp: TitlePostSerializer_create_def Let_def dest!: create_genre_titles_result)
    with n show False by simp
  qed
qed

text \<open>
  C9, amended. The create action refuses a body without \<open>category\<close> (or with null) and
  a body without \<open>genre\<close>. A body with valid scalar fields, an empty list of genres and
  the slug of a stored category creates the title with that category and adds no genre
  row. On the model itself the category is optional: \<open>Title.objects.create\<close> with a
  null category stores the title with a null category and no genre row.
\<close>

theorem title_create_fields:
  "(data_category data = None \<or> data_category data = Some JNull \<longrightarrow>
      (\<exists>fs. TitleViewSet_create env d data = (Inl (ValidationError fs), d) \<and> ''category'' \<in> set fs))
   \<and> (data_genre data = None \<longrightarrow>
      (\<exists>fs. TitleViewSet_create env d data = (Inl (ValidationError fs), d) \<and> ''genre'' \<in> set fs))
   \<and> (CharField (Some 256) (data_name data) = Some name
        \<and> IntegerField_year env (data_year data) = Some year
        \<and> CharField None (data_description data) = Some description
        \<and> data_genre data = Some (JList [])
        \<and> data_category data = Some (JStr slug)
        \<and> find (\<lambda>c. category_slug c = slug) (categories d) = Some c \<longrightarrow>
      TitleViewSet_create env d data
        = (Inr \<lparr> title_id = new_id (map title_id (titles d)), title_name = name,
                 title_year = year, title_description = description,
                 title_category = Some slug \<rparr>,
           d\<lparr>titles := titles d @
                [\<lparr> title_id = new_id (map title_id (titles d)), title_name = name,
                   title_year = year, title_description = description,
                   title_category = Some slug \<rparr>]\<rparr>))
   \<and> (\<exists>t. Title_objects_create d name year description None = (t, d\<lparr>titles := titles d @ [t]\<rparr>)
          \<and> title_category t = None)"
proof (intro conjI impI)
  assume "data_category data = None \<or> data_category data = Some JNull"
  then have "TitlePostSerializer_category d (data_category data) = None"
    by (auto simp: TitlePostSerializer_category_def)
  from is_valid_no_category [OF this, of env]
  show "\<exists>fs. TitleViewSet_create env d data = (Inl (ValidationError fs), d) \<and> ''category'' \<in> set fs"
    by (auto simp: TitleViewSet_create_def)
next
  assume "data_genre data = None"
  then have "TitlePostSerializer_genre d (data_genre data) = None"
    by (simp add: TitlePostSerializer_genre_def)
  from is_valid_no_genre [OF this, of env]
  show "\<exists>fs. TitleViewSet_create env d data = (Inl (ValidationError fs), d) \<and> ''genre'' \<in> set fs"
    by (auto simp: TitleViewSet_create_def)
next
  assume a: "CharField (Some 256) (data_name data) = Some name
        \<and> IntegerField_year env (data_year data) = Some year
        \<and> CharField None (data_description data) = Some description
        \<and> data_genre data = Some (JList [])
        \<and> data_category data = Some (JStr slug)
        \<and> find (\<lambda>c. category_slug c = slug) (categories d) = Some c"
  then have s: "category_slug c = slug"
    by (auto simp: find_Some_iff)
  have v: "TitlePostSerializer_is_valid env d data
      = Inr \<lparr> validated_name = name, validated_year = year, validated_description = description,
              validated_genre = [], validated_category = c \<rparr>"
    using a by (simp add: TitlePostSerializer_is_valid_def TitlePostSerializer_genre_def
        TitlePostSerializer_category_def)
  show "TitleViewSet_create env d data
        = (Inr \<lparr> title_id = new_id (map title_id (titles d)), title_name = name,
                 title_year = year, title_description = description,
                 title_category = Some slug \<rparr>,
           d\<lparr>titles := titles d @
                [\<lparr> title_id = new_id (map title_id (titles d)), title_name = name,
                   title_year = year, title_description = description,
                   title_category = Some slug \<rparr>]\<rparr>)"
    using v s by (simp add: TitleViewSet_create_def TitlePostSerializer_create_def Let_def)
next
  show "\<exists>t. Title_objects_create d name year description None = (t, d\<lparr>titles := titles d @ [t]\<rparr>)
          \<and> title_category t = None"
    by (simp add: Title_objects_create_def Let_def)
qed

theorem title_create_fields_witness:
  "(\<exists>fs. TitleViewSet_create example_env example_db
       \<lparr> data_name = Some ''Solaris'', data_year = Some 1961, data_description = Some ''A novel'',
         data_genre = None, data_category = None \<rparr>
         = (Inl (ValidationError fs), example_db) \<and> ''category'' \<in> set fs)
   \<and> (\<exists>fs. TitleViewSet_create example_env example_db
       \<lparr> data_name = Some ''Solaris'', data_year = Some 1961, data_description = Some ''A novel'',
         data_genre = None, data_category = None \<rparr>
         = (Inl (ValidationError fs), example_db) \<and> ''genre'' \<in> set fs)
   \<and> TitleViewSet_create example_env example_db
       \<lparr> data_name = Some ''Solaris'', data_year = Some 1961, data_description = Some ''A novel'',
         data_genre = Some (JList []), data_category = Some (JStr ''books'') \<rparr>
       = (Inr \<lparr> title_id = 2, title_name = ''Solaris'', title_year = 1961,
                 title_description = ''A novel'', title_category = Some ''books'' \<rparr>,
          example_db\<lparr>titles := [dune, \<lparr> title_id = 2, title_name = ''Solaris'', title_year = 1961,
                 title_description = ''A novel'', title_category = Some ''books'' \<rparr>]\<rparr>)"
proof -
  let ?d1 = "\<lparr> data_name = Some ''Solaris'', data_year = Some 1961,
               data_description = Some ''A novel'', data_genre = None, data_category = None \<rparr>"
  let ?d2 = "\<lparr> data_name = Some ''Solaris'', data_year = Some 1961,
               data_description = Some ''A novel'', data_genre = Some (JList []),
               data_category = Some (JStr ''books'') \<rparr>"
  have 1: "\<exists>fs. TitleViewSet_create example_env example_db ?d1
         = (Inl (ValidationError fs), example_db) \<and> ''category'' \<in> set fs"
    using title_create_fields [of ?d1 example_env example_db] by simp
  have h: "CharField (Some 256) (data_name ?d2) = Some ''Solaris''
        \<and> IntegerField_year example_env (data_year ?d2) = Some 1961
        \<and> CharField None (data_description ?d2) = Some ''A novel''
        \<and> data_genre ?d2 = Some (JList [])
        \<and> data_category ?d2 = Some (JStr ''books'')
        \<and> find (\<lambda>c. category_slug c = ''books'') (categories example_db) = Some books"
    by (simp add: CharField_def strip_def is_space_def IntegerField_year_def validate_year_def
        ex_defs)
  have n: "new_id (map title_id (titles example_db)) = 2"
    by (simp add: new_id_def ex_defs)
  have t: "titles example_db = [dune]"
    by (simp add: example_db_def)
  have 2: "TitleViewSet_create example_env example_db ?d2
       = (Inr \<lparr> title_id = 2, title_name = ''Solaris'', title_year = 1961,
                 title_description = ''A novel'', title_category = Some ''books'' \<rparr>,
          example_db\<lparr>titles := [dune, \<lparr> title_id = 2, title_name = ''Solaris'', title_year = 1961,
                 title_description = ''A novel'', title_category = Some ''books'' \<rparr>]\<rparr>)"
    using title_create_fields [of ?d2 example_env example_db "''Solaris''" 1961 "''A novel''" "''books''" books]
      h n t by simp
  have 3: "\<exists>fs. TitleViewSet_create example_env example_db ?d1
         = (Inl (ValidationError fs), example_db) \<and> ''genre'' \<in> set fs"
    using title_create_fields [of ?d1 example_env example_db] by simp
  from 1 2 3 show ?thesis by blast
qed

text \<open>
  C10. The router sends POST on the collection to \<open>create\<close> and PATCH on an item to
  \<open>partial_update\<close>, which \<open>TitlePostSerializer\<close> serves; PUT on an item is
  \<open>update\<close> and, like the read actions and \<open>destroy\<close>, gets \<open>TitleSerializer\<close>. Under
  \<open>update\<close> a slug string for \<open>category\<close>, a slug string for \<open>genre\<close> and a list that
  starts with a slug string for \<open>genre\<close> are validation errors, whatever rows are stored;
  under \<open>create\<close> and \<open>partial_update\<close> the same values are looked up by slug.
\<close>

theorem title_serializer_by_action:
  "map_option get_serializer_class (router_action POST False) = Some TitlePostSerializer
   \<and> map_option get_serializer_class (router_action PATCH True) = Some TitlePostSerializer
   \<and> map_option get_serializer_class (router_action PUT True) = Some TitleSerializer
   \<and> map_option get_serializer_class (router_action GET False) = Some TitleSerializer
   \<and> map_option get_serializer_class (router_action GET True) = Some TitleSerializer
   \<and> map_option get_serializer_class (router_action DELETE True) = Some TitleSerializer
   \<and> (\<forall>d s. category_to_internal_value (get_serializer_class ''update'') d (JStr s) = None)
   \<and> (\<forall>d s js. genre_to_internal_value (get_serializer_class ''update'') d (JList (JStr s # js)) = None)
   \<and> (\<forall>d s. genre_to_internal_value (get_serializer_class ''update'') d (JStr s) = None)
   \<and> (\<forall>d s. category_to_internal_value (get_serializer_class ''create'') d (JStr s)
               = map_option Row (find (\<lambda>c. category_slug c = s) (categories d)))
   \<and> (\<forall>d s. category_to_internal_value (get_serializer_class ''partial_update'') d (JStr s)
               = map_option Row (find (\<lambda>c. category_slug c = s) (categories d)))
   \<and> (\<forall>d s. genre_to_internal_value (get_serializer_class ''create'') d (JList [JStr s])
               = map_option (\<lambda>g. [Row g]) (find (\<lambda>g. genre_slug g = s) (genres d)))
   \<and> (\<forall>d s. genre_to_internal_value (get_serializer_class ''partial_update'') d (JList [JStr s])
               = map_option (\<lambda>g. [Row g]) (find (\<lambda>g. genre_slug g = s) (genres d)))"
  by (auto simp: get_serializer_class_def category_to_internal_value_def
      genre_to_internal_value_def TitlePostSerializer_category_def TitlePostSerializer_genre_def
      TitleSerializer_category_def TitleSerializer_genre_def split: option.splits)

text \<open>
  C1, as the claim states it, fails: the title of the instance has two reviews with the
  scores 1 and 2, whose mean is 3/2, and both the retrieve and the list action give it
  the rating 1.
\<close>

theorem title_rating_not_the_mean:
  "Avg (review_scores example_db 1) = Some (3 / 2)
   \<and> (\<exists>y. TitleViewSet_retrieve example_db 1 = Inr y \<and> repr_rating y = Some 1)
   \<and> map repr_rating (TitleViewSet_list example_db (\<lambda>t. True) 0 10) = [Some 1]"
proof -
  have sc: "review_scores example_db 1 = [1, 2]"
    by (simp add: review_scores_def ex_defs)
  have r: "map_option py_int (Avg [1, 2]) = Some 1"
    by (simp add: rating_of_row)
  have q: "TitleViewSet_queryset example_db = [(dune, Avg [1, 2])]"
    using sc by (simp add: TitleViewSet_queryset_def example_db_def dune_def)
  have 1: "Avg (review_scores example_db 1) = Some (3 / 2)"
    unfolding sc by (simp add: Avg_def)
  have 2: "\<exists>y. TitleViewSet_retrieve example_db 1 = Inr y \<and> repr_rating y = Some 1"
    unfolding TitleViewSet_retrieve_def q
    using r by (simp add: get_object_or_404_def TitleSerializer_to_representation_def dune_def)
  have 3: "map repr_rating (TitleViewSet_list example_db (\<lambda>t. True) 0 10) = [Some 1]"
    unfolding TitleViewSet_list_def q
    using r by (simp add: TitleSerializer_to_representation_def)
  from 1 2 3 show ?thesis by blast
qed

text \<open>
  C1, amended. For every title that the list action returns, and for the title that the
  retrieve action returns, the rating is null when the title has no review, and
  otherwise the mean of the scores of its reviews with the fraction dropped: the
  quotient of the sum by the count, rounded toward zero.
\<close>

theorem title_rating_truncated_mean:
  "(\<forall>y \<in> set (TitleViewSet_list d selected offset limit).
      repr_rating y
        = (let xs = review_scores d (repr_id y)
           in if xs = [] then None
              else Some (if 0 \<le> sum_list xs then sum_list xs div int (length xs)
                         else - ((- sum_list xs) div int (length xs)))))
   \<and> (\<forall>y. TitleViewSet_retrieve d pk = Inr y \<longrightarrow>
      repr_id y = pk \<and>
      repr_rating y
        = (let xs = review_scores d pk
           in if xs = [] then None
              else Some (if 0 \<le> sum_list xs then sum_list xs div int (length xs)
                         else - ((- sum_list xs) div int (length xs)))))"
proof (intro conjI ballI allI impI)
  fix y assume "y \<in> set (TitleViewSet_list d selected offset limit)"
  then obtain x where x: "x \<in> set (TitleViewSet_queryset d)"
    and y: "y = TitleSerializer_to_representation d x"
    by (auto simp: TitleViewSet_list_def Let_def dest!: in_set_takeD in_set_dropD
        split: if_splits)
  show "repr_rating y
        = (let xs = review_scores d (repr_id y)
           in if xs = [] then None
              else Some (if 0 \<le> sum_list xs then sum_list xs div int (length xs)
                         else - ((- sum_list xs) div int (length xs))))"
    unfolding y by (rule representation_rating [OF x])
next
  fix y assume r: "TitleViewSet_retrieve d pk = Inr y"
  then obtain x where g: "get_object_or_404 [x \<leftarrow> TitleViewSet_queryset d. title_id (fst x) = pk] = Inr x"
    and y: "y = TitleSerializer_to_representation d x"
    by (auto simp: TitleViewSet_retrieve_def split: sum.splits)
  from get_object_or_404_Inr [OF g] have "x \<in> set [x \<leftarrow> TitleViewSet_queryset d. title_id (fst x) = pk]"
    by simp
  then have x: "x \<in> set (TitleViewSet_queryset d)" and pk: "title_id (fst x) = pk"
    by simp_all
  show "repr_id y = pk" using y pk by (simp add: TitleSerializer_to_representation_def Let_def)
  then show "repr_rating y
        = (let xs = review_scores d pk
           in if xs = [] then None
              else Some (if 0 \<le> sum_list xs then sum_list xs div int (length xs)
                         else - ((- sum_list xs) div int (length xs))))"
    using representation_rating [OF x] y by simp
qed

theorem title_rating_truncated_mean_witness:
  "(\<exists>y. TitleViewSet_retrieve example_db 1 = Inr y \<and> repr_rating y = Some 1)
   \<and> (\<exists>y. TitleViewSet_list example_db (\<lambda>t. True) 0 10 = [y] \<and> repr_rating y = Some 1)"
proof -
  obtain y where y: "TitleViewSet_retrieve example_db 1 = Inr y"
    by (simp add: TitleViewSet_retrieve_def TitleViewSet_queryset_def get_object_or_404_def
        ex_defs)
  have "review_scores example_db 1 = [1, 2]"
    by (simp add: review_scores_def ex_defs)
  then have r: "repr_rating y = Some 1"
    using title_rating_truncated_mean [of example_db "\<lambda>t. True" 0 10 1] y by simp
  have "\<exists>z. TitleViewSet_list example_db (\<lambda>t. True) 0 10 = [z] \<and> repr_id z = 1"
    by (simp add: TitleViewSet_list_def TitleViewSet_queryset_def
        TitleSerializer_to_representation_def ex_defs)
  then obtain z where z: "TitleViewSet_list example_db (\<lambda>t. True) 0 10 = [z]" "repr_id z = 1"
    by blast
  then have "z \<in> set (TitleViewSet_list example_db (\<lambda>t. True) 0 10)"
    by simp
  then have "repr_rating z = Some 1"
    using title_rating_truncated_mean [of example_db "\<lambda>t. True" 0 10 1] z(2)
      \<open>review_scores example_db 1 = [1, 2]\<close>
    by fastforce
  with y r z show ?thesis by blast
qed

text \<open>
  C2. When the caller already has a review of the title, the create action answers with
  a validation error (400) and leaves the stored state as it is. A state with unique
  keys in which no two reviews share title and author stays so under the create, update
  and destroy actions of the reviews.
\<close>

theorem one_review_per_title_and_author:
  "((\<exists>r \<in> set (reviews d). review_title r = tid \<and> review_author r = user_id u) \<longrightarrow>
      (\<exists>fs. ReviewViewSet_create env d u tid data = (Inl (ValidationError fs), d)
            \<and> exception_handler (ValidationError fs) = 400))
   \<and> (unique_review d \<and> distinct (map review_id (reviews d)) \<longrightarrow>
        unique_review (snd (ReviewViewSet_create env d u tid data))
      \<and> distinct (map review_id (reviews (snd (ReviewViewSet_create env d u tid data))))
      \<and> unique_review (snd (ReviewViewSet_update env d u m tid pk data))
      \<and> distinct (map review_id (reviews (snd (ReviewViewSet_update env d u m tid pk data))))
      \<and> unique_review (snd (ReviewViewSet_destroy env d u tid pk))
      \<and> distinct (map review_id (reviews (snd (ReviewViewSet_destroy env d u tid pk)))))"
proof (intro conjI impI)
  assume "\<exists>r \<in> set (reviews d). review_title r = tid \<and> review_author r = user_id u"
  from create_conflict [OF this, of env data]
  show "\<exists>fs. ReviewViewSet_create env d u tid data = (Inl (ValidationError fs), d)
            \<and> exception_handler (ValidationError fs) = 400"
    by auto
next
  assume a: "unique_review d \<and> distinct (map review_id (reviews d))"
  then show "unique_review (snd (ReviewViewSet_create env d u tid data))"
    by (simp add: create_unique)
  from a show "distinct (map review_id (reviews (snd (ReviewViewSet_create env d u tid data))))"
    by (simp add: create_ids)
  from a update_constraints [of d env u m tid pk data]
  show "unique_review (snd (ReviewViewSet_update env d u m tid pk data))"
    and "distinct (map review_id (reviews (snd (ReviewViewSet_update env d u m tid pk data))))"
    by simp_all
  from a destroy_constraints [of d env u tid pk]
  show "unique_review (snd (ReviewViewSet_destroy env d u tid pk))"
    and "distinct (map review_id (reviews (snd (ReviewViewSet_destroy env d u tid pk))))"
    by simp_all
qed

theorem one_review_per_title_and_author_witness:
  "ReviewViewSet_create example_env (example_db\<lparr>reviews := [review_alice]\<rparr>) bob 1
       \<lparr> data_text = Some ''Long'', data_score = Some 2, data_author = None \<rparr>
     = (Inr (review_bob\<lparr>review_pub_date := 7\<rparr>),
        example_db\<lparr>reviews := [review_alice, review_bob\<lparr>review_pub_date := 7\<rparr>]\<rparr>)
   \<and> unique_review (example_db\<lparr>reviews := [review_alice, review_bob\<lparr>review_pub_date := 7\<rparr>]\<rparr>)
   \<and> (\<exists>fs. ReviewViewSet_create example_env
              (example_db\<lparr>reviews := [review_alice, review_bob\<lparr>review_pub_date := 7\<rparr>]\<rparr>) bob 1
              \<lparr> data_text = Some ''Again'', data_score = Some 9, data_author = None \<rparr>
            = (Inl (ValidationError fs),
               example_db\<lparr>reviews := [review_alice, review_bob\<lparr>review_pub_date := 7\<rparr>]\<rparr>))"
proof -
  let ?d0 = "example_db\<lparr>reviews := [review_alice]\<rparr>"
  let ?d1 = "example_db\<lparr>reviews := [review_alice, review_bob\<lparr>review_pub_date := 7\<rparr>]\<rparr>"
  let ?b = "\<lparr> data_text = Some ''Long'', data_score = Some 2, data_author = None \<rparr>"
  let ?b2 = "\<lparr> data_text = Some ''Again'', data_score = Some 9, data_author = None \<rparr>"
  have c: "ReviewViewSet_create example_env ?d0 bob 1 ?b
      = (Inr (review_bob\<lparr>review_pub_date := 7\<rparr>), ?d1)"
    by (simp add: ReviewViewSet_create_def ReviewSerializer_run_validation_def
        ReviewSerializer_to_internal_value_def ReviewSerializer_validate_def
        ReviewViewSet_perform_create_def Review_objects_create_def get_object_or_404_def
        CharField_def strip_def is_space_def ChoiceField_score_def SCORE_CHOICES_def
        new_id_def ex_defs)
  have pre: "unique_review ?d0 \<and> distinct (map review_id (reviews ?d0))"
    by (simp add: unique_review_def)
  have u: "unique_review ?d1"
    using one_review_per_title_and_author [of ?d0 1 bob example_env ?b] pre c by simp
  have ex: "\<exists>r \<in> set (reviews ?d1). review_title r = 1 \<and> review_author r = user_id bob"
    by (simp add: ex_defs)
  have "\<exists>fs. ReviewViewSet_create example_env ?d1 bob 1 ?b2 = (Inl (ValidationError fs), ?d1)"
    using one_review_per_title_and_author [of ?d1 1 bob example_env ?b2] ex by blast
  with c u show ?thesis by blast
qed

text \<open>
  C7, as the claim states it, fails: on create the body is validated before the parents
  are resolved. No title has the key 99, and a create of a review under it with a body
  that lacks the text and has the score 11 is answered with a validation error (400),
  not with \<open>Http404\<close>; likewise a create of a comment with a body that lacks the text.
\<close>

theorem review_create_validates_before_resolving:
  "[t \<leftarrow> titles example_db. title_id t = 99] = []
   \<and> ReviewViewSet_create example_env example_db alice 99
        \<lparr> data_text = None, data_score = Some 11, data_author = None \<rparr>
      = (Inl (ValidationError [''text'', ''score'']), example_db)
   \<and> exception_handler (ValidationError [''text'', ''score'']) = 400
   \<and> CommentViewSet_create example_env example_db alice 99 1
        \<lparr> data_text = None, data_score = None, data_author = None \<rparr>
      = (Inl (ValidationError [''text'']), example_db)"
  by (simp add: ReviewViewSet_create_def ReviewSerializer_run_validation_def
      ReviewSerializer_to_internal_value_def CharField_def ChoiceField_score_def
      SCORE_CHOICES_def CommentViewSet_create_def CommentSerializer_to_internal_value_def
      example_db_def dune_def)

text \<open>
  C7, amended, for requests that the permission class admitted. When no title has the
  key of the path, the list, retrieve, update and destroy actions of reviews raise
  \<open>Http404\<close> and leave the state as it is; so do those of comments, also when the
  title resolves and none of its reviews has the review key of the path. On create the
  body is validated first: a create whose body fails the field validation raises the
  validation error (400) and stores nothing, whatever the path and the state, so
  whether or not the parents resolve; a create whose body passes it raises \<open>Http404\<close>
  when a parent does not resolve (for reviews, in a state where every review points to
  a stored title). A create that succeeds stores one new row whose author is the caller
  and whose parent is the one of the path, and an \<open>author\<close> value in the body changes
  nothing.
\<close>

theorem parents_resolved_and_author_bound:
  "([t \<leftarrow> titles d. title_id t = tid] = [] \<longrightarrow>
       ReviewViewSet_list d tid = Inl Http404
     \<and> ReviewViewSet_retrieve env d caller tid pk = Inl Http404
     \<and> ReviewViewSet_update env d u m tid pk data = (Inl Http404, d)
     \<and> ReviewViewSet_destroy env d u tid pk = (Inl Http404, d))
   \<and> ([t \<leftarrow> titles d. title_id t = tid] = []
        \<or> ([t \<leftarrow> titles d. title_id t = tid] = [t]
            \<and> [r \<leftarrow> reviews d. review_title r = tid \<and> review_id r = rid] = []) \<longrightarrow>
       CommentViewSet_list d tid rid = Inl Http404
     \<and> CommentViewSet_retrieve env d caller tid rid pk = Inl Http404
     \<and> CommentViewSet_update env d u m tid rid pk data = (Inl Http404, d)
     \<and> CommentViewSet_destroy env d u tid rid pk = (Inl Http404, d)
     \<and> (\<forall>attrs. CommentSerializer_to_internal_value False data = Inr attrs \<longrightarrow>
          CommentViewSet_create env d u tid rid data = (Inl Http404, d)))
   \<and> ([t \<leftarrow> titles d. title_id t = tid] = [] \<and> review_title_fk d
        \<and> ReviewSerializer_to_internal_value False data = Inr attrs \<longrightarrow>
       ReviewViewSet_create env d u tid data = (Inl Http404, d))
   \<and> (\<forall>r d'. ReviewViewSet_create env d u tid data = (Inr r, d') \<longrightarrow>
         review_author r = user_id u \<and> review_title r = tid
       \<and> d' = d\<lparr>reviews := reviews d @ [r]\<rparr>)
   \<and> (\<forall>c d'. CommentViewSet_create env d u tid rid data = (Inr c, d') \<longrightarrow>
         comments_author c = user_id u \<and> comments_review c = rid
       \<and> d' = d\<lparr>comments_rows := comments_rows d @ [c]\<rparr>)
   \<and> (\<forall>a. ReviewViewSet_create env d u tid (data\<lparr>data_author := a\<rparr>)
           = ReviewViewSet_create env d u tid data)
   \<and> (\<forall>a. CommentViewSet_create env d u tid rid (data\<lparr>data_author := a\<rparr>)
           = CommentViewSet_create env d u tid rid data)
   \<and> (\<forall>e. ReviewSerializer_to_internal_value False data = Inl e \<longrightarrow>
         ReviewViewSet_create env d u tid data = (Inl e, d) \<and> exception_handler e = 400)
   \<and> (\<forall>e. CommentSerializer_to_internal_value False data = Inl e \<longrightarrow>
         CommentViewSet_create env d u tid rid data = (Inl e, d) \<and> exception_handler e = 400)"
proof (intro conjI)
  show "[t \<leftarrow> titles d. title_id t = tid] = [] \<longrightarrow>
       ReviewViewSet_list d tid = Inl Http404
     \<and> ReviewViewSet_retrieve env d caller tid pk = Inl Http404
     \<and> ReviewViewSet_update env d u m tid pk data = (Inl Http404, d)
     \<and> ReviewViewSet_destroy env d u tid pk = (Inl Http404, d)"
    using review_404_without_title [where d = d and tid = tid] by blast
  show "[t \<leftarrow> titles d. title_id t = tid] = []
        \<or> ([t \<leftarrow> titles d. title_id t = tid] = [t]
            \<and> [r \<leftarrow> reviews d. review_title r = tid \<and> review_id r = rid] = []) \<longrightarrow>
       CommentViewSet_list d tid rid = Inl Http404
     \<and> CommentViewSet_retrieve env d caller tid rid pk = Inl Http404
     \<and> CommentViewSet_update env d u m tid rid pk data = (Inl Http404, d)
     \<and> CommentViewSet_destroy env d u tid rid pk = (Inl Http404, d)
     \<and> (\<forall>attrs. CommentSerializer_to_internal_value False data = Inr attrs \<longrightarrow>
          CommentViewSet_create env d u tid rid data = (Inl Http404, d))"
  proof (intro impI conjI allI)
    assume a: "[t \<leftarrow> titles d. title_id t = tid] = []
        \<or> ([t \<leftarrow> titles d. title_id t = tid] = [t]
            \<and> [r \<leftarrow> reviews d. review_title r = tid \<and> review_id r = rid] = [])"
    note q = comment_queryset_404 [OF a]
    show "CommentViewSet_list d tid rid = Inl Http404"
      and "CommentViewSet_retrieve env d caller tid rid pk = Inl Http404"
      and "CommentViewSet_update env d u m tid rid pk data = (Inl Http404, d)"
      and "CommentViewSet_destroy env d u tid rid pk = (Inl Http404, d)"
      by (rule comment_404_without_parent [OF q])+
    fix attrs assume "CommentSerializer_to_internal_value False data = Inr attrs"
    then show "CommentViewSet_create env d u tid rid data = (Inl Http404, d)"
      by (rule comment_create_404 [OF a])
  qed
  show "[t \<leftarrow> titles d. title_id t = tid] = [] \<and> review_title_fk d
        \<and> ReviewSerializer_to_internal_value False data = Inr attrs \<longrightarrow>
       ReviewViewSet_create env d u tid data = (Inl Http404, d)"
    using review_create_404 by blast
  show "\<forall>r d'. ReviewViewSet_create env d u tid data = (Inr r, d') \<longrightarrow>
         review_author r = user_id u \<and> review_title r = tid
       \<and> d' = d\<lparr>reviews := reviews d @ [r]\<rparr>"
    using review_create_author by blast
  show "\<forall>c d'. CommentViewSet_create env d u tid rid data = (Inr c, d') \<longrightarrow>
         comments_author c = user_id u \<and> comments_review c = rid
       \<and> d' = d\<lparr>comments_rows := comments_rows d @ [c]\<rparr>"
    using comment_create_author by blast
  show "\<forall>a. ReviewViewSet_create env d u tid (data\<lparr>data_author := a\<rparr>)
           = ReviewViewSet_create env d u tid data"
    by (simp add: review_create_ignores_author)
  show "\<forall>a. CommentViewSet_create env d u tid rid (data\<lparr>data_author := a\<rparr>)
           = CommentViewSet_create env d u tid rid data"
    by (simp add: comment_create_ignores_author)
  show "\<forall>e. ReviewSerializer_to_internal_value False data = Inl e \<longrightarrow>
         ReviewViewSet_create env d u tid data = (Inl e, d) \<and> exception_handler e = 400"
    using review_create_invalid_body by blast
  show "\<forall>e. CommentSerializer_to_internal_value False data = Inl e \<longrightarrow>
         CommentViewSet_create env d u tid rid data = (Inl e, d) \<and> exception_handler e = 400"
    using comment_create_invalid_body by blast
qed

theorem parents_resolved_and_author_bound_witness:
  "ReviewViewSet_list example_db 99 = Inl Http404
   \<and> ReviewViewSet_create example_env example_db alice 99
        \<lparr> data_text = Some ''Fine'', data_score = Some 8, data_author = Some ''bob'' \<rparr>
      = (Inl Http404, example_db)
   \<and> CommentViewSet_list example_db 1 99 = Inl Http404
   \<and> (\<exists>c d'. CommentViewSet_create example_env example_db alice 1 1
                 \<lparr> data_text = Some ''Indeed'', data_score = None, data_author = Some ''bob'' \<rparr>
               = (Inr c, d')
             \<and> comments_author c = user_id alice)
   \<and> (\<exists>r d'. ReviewViewSet_create example_env (example_db\<lparr>reviews := [review_alice]\<rparr>) bob 1
                 \<lparr> data_text = Some ''Long'', data_score = Some 2, data_author = Some ''alice'' \<rparr>
               = (Inr r, d')
             \<and> review_author r = user_id bob)
   \<and> ReviewViewSet_create example_env example_db bob 1
        \<lparr> data_text = Some ''  '', data_score = Some 0, data_author = None \<rparr>
      = (Inl (ValidationError [''text'', ''score'']), example_db)
   \<and> CommentViewSet_create example_env example_db bob 99 99
        \<lparr> data_text = None, data_score = None, data_author = None \<rparr>
      = (Inl (ValidationError [''text'']), example_db)"
proof -
  let ?rb = "\<lparr> data_text = Some ''Fine'', data_score = Some 8, data_author = Some ''bob'' \<rparr>"
  let ?cb = "\<lparr> data_text = Some ''Indeed'', data_score = None, data_author = Some ''bob'' \<rparr>"
  have nt: "[t \<leftarrow> titles example_db. title_id t = 99] = []"
    by (simp add: example_db_def dune_def)
  have fk: "review_title_fk example_db"
    by (simp add: review_title_fk_def ex_defs)
  have v: "ReviewSerializer_to_internal_value False ?rb = Inr (Some ''Fine'', Some 8)"
    by (simp add: ReviewSerializer_to_internal_value_def CharField_def strip_def is_space_def
        ChoiceField_score_def SCORE_CHOICES_def)
  have one: "[t \<leftarrow> titles example_db. title_id t = 1] = [dune]
      \<and> [r \<leftarrow> reviews example_db. review_title r = 1 \<and> review_id r = 99] = []"
    by (simp add: ex_defs)
  note th1 = parents_resolved_and_author_bound
      [where d = example_db and tid = 99 and env = example_env and u = alice and data = ?rb
         and attrs = "(Some ''Fine'', Some 8)"]
  note th2 = parents_resolved_and_author_bound
      [where d = example_db and tid = 1 and rid = 99 and t = dune]
  note th3 = parents_resolved_and_author_bound
      [where d = example_db and tid = 1 and rid = 1 and env = example_env and u = alice
         and data = ?cb]
  have 1: "ReviewViewSet_list example_db 99 = Inl Http404"
    using th1 nt by blast
  have 2: "ReviewViewSet_create example_env example_db alice 99 ?rb = (Inl Http404, example_db)"
    using th1 nt fk v by blast
  have 3: "CommentViewSet_list example_db 1 99 = Inl Http404"
    using th2 one by blast
  have "\<exists>c d'. CommentViewSet_create example_env example_db alice 1 1 ?cb = (Inr c, d')"
    by (simp add: CommentViewSet_create_def CommentSerializer_to_internal_value_def
        CommentViewSet_perform_create_def get_object_or_404_def CharField_def strip_def
        is_space_def Let_def ex_defs)
  then obtain c d' where
    cr: "CommentViewSet_create example_env example_db alice 1 1 ?cb = (Inr c, d')"
    by blast
  then have ca: "comments_author c = user_id alice"
    using th3 by blast
  let ?d0 = "example_db\<lparr>reviews := [review_alice]\<rparr>"
  let ?b = "\<lparr> data_text = Some ''Long'', data_score = Some 2, data_author = Some ''alice'' \<rparr>"
  have "\<exists>r d'. ReviewViewSet_create example_env ?d0 bob 1 ?b = (Inr r, d')"
    by (simp add: ReviewViewSet_create_def ReviewSerializer_run_validation_def
        ReviewSerializer_to_internal_value_def ReviewSerializer_validate_def
        ReviewViewSet_perform_create_def Review_objects_create_def get_object_or_404_def
        CharField_def strip_def is_space_def ChoiceField_score_def SCORE_CHOICES_def
        new_id_def ex_defs)
  then obtain r d0' where rr: "ReviewViewSet_create example_env ?d0 bob 1 ?b = (Inr r, d0')"
    by blast
  then have ra: "review_author r = user_id bob"
    using parents_resolved_and_author_bound
      [where d = ?d0 and tid = 1 and env = example_env and u = bob and data = ?b]
    by blast
  let ?ib = "\<lparr> data_text = Some ''  '', data_score = Some 0, data_author = None \<rparr>"
  let ?ic = "\<lparr> data_text = None, data_score = None, data_author = None \<rparr>"
  have "ReviewSerializer_to_internal_value False ?ib = Inl (ValidationError [''text'', ''score''])"
    by (simp add: ReviewSerializer_to_internal_value_def CharField_def strip_def is_space_def
        ChoiceField_score_def SCORE_CHOICES_def)
  then have ir: "ReviewViewSet_create example_env example_db bob 1 ?ib
      = (Inl (ValidationError [''text'', ''score'']), example_db)"
    using parents_resolved_and_author_bound
      [where d = example_db and tid = 1 and env = example_env and u = bob and data = ?ib]
    by blast
  have "CommentSerializer_to_internal_value False ?ic = Inl (ValidationError [''text''])"
    by (simp add: CommentSerializer_to_internal_value_def CharField_def)
  then have ic: "CommentViewSet_create example_env example_db bob 99 99 ?ic
      = (Inl (ValidationError [''text'']), example_db)"
    using parents_resolved_and_author_bound
      [where d = example_db and tid = 99 and rid = 99 and env = example_env and u = bob
         and data = ?ic]
    by blast
  from 1 2 3 cr ca rr ra ir ic show ?thesis by blast
qed

text \<open>
  C6. Deleting a category leaves every title in place and as it was but for the
  category, which becomes null where it was the deleted one; the reviews, the comments
  and the genre rows stay. Deleting a title (review keys being unique) deletes the
  reviews of that title and no other, and the comments of those reviews and no other.
  Deleting a review deletes the comments of that review and no other, and no title.
  After each, every foreign key that pointed to a stored row still does.
\<close>

theorem on_delete_effects:
  "map (\<lambda>t. t\<lparr>title_category := None\<rparr>) (titles (Category_delete d c))
     = map (\<lambda>t. t\<lparr>title_category := None\<rparr>) (titles d)
   \<and> map title_category (titles (Category_delete d c))
     = map (\<lambda>t. if title_category t = Some (category_slug c) then None else title_category t)
         (titles d)
   \<and> category_slug c \<notin> set (map category_slug (categories (Category_delete d c)))
   \<and> reviews (Category_delete d c) = reviews d
   \<and> comments_rows (Category_delete d c) = comments_rows d
   \<and> genre_titles (Category_delete d c) = genre_titles d
   \<and> (title_category_fk d \<longrightarrow> title_category_fk (Category_delete d c))
   \<and> (distinct (map review_id (reviews d)) \<longrightarrow>
        reviews (Title_delete d t) = [r \<leftarrow> reviews d. review_title r \<noteq> title_id t])
   \<and> set (comments_rows (Title_delete d t))
     = {c \<in> set (comments_rows d).
          \<not> (\<exists>r \<in> set (reviews d). review_title r = title_id t \<and> review_id r = comments_review c)}
   \<and> titles (Title_delete d t) = [x \<leftarrow> titles d. title_id x \<noteq> title_id t]
   \<and> categories (Title_delete d t) = categories d
   \<and> users (Title_delete d t) = users d
   \<and> (review_title_fk d \<longrightarrow> review_title_fk (Title_delete d t))
   \<and> (comments_review_fk d \<longrightarrow> comments_review_fk (Title_delete d t))
   \<and> comments_rows (Review_delete d r)
     = [x \<leftarrow> comments_rows d. comments_review x \<noteq> review_id r]
   \<and> reviews (Review_delete d r) = [x \<leftarrow> reviews d. review_id x \<noteq> review_id r]
   \<and> titles (Review_delete d r) = titles d
   \<and> (comments_review_fk d \<longrightarrow> comments_review_fk (Review_delete d r))"
proof (intro conjI impI)
  show "map (\<lambda>t. t\<lparr>title_category := None\<rparr>) (titles (Category_delete d c))
     = map (\<lambda>t. t\<lparr>title_category := None\<rparr>) (titles d)"
    by (rule Category_delete_titles)
  show "map title_category (titles (Category_delete d c))
     = map (\<lambda>t. if title_category t = Some (category_slug c) then None else title_category t)
         (titles d)"
    by (rule Category_delete_titles)
  show "category_slug c \<notin> set (map category_slug (categories (Category_delete d c)))"
    by (auto simp: Category_delete_def)
  show "reviews (Category_delete d c) = reviews d"
    and "comments_rows (Category_delete d c) = comments_rows d"
    and "genre_titles (Category_delete d c) = genre_titles d"
    by (simp_all add: Category_delete_def)
  show "title_category_fk (Category_delete d c)" if "title_category_fk d"
    using that by (rule Category_delete_fk)
  show "reviews (Title_delete d t) = [r \<leftarrow> reviews d. review_title r \<noteq> title_id t]"
    if "distinct (map review_id (reviews d))"
    using that by (rule Title_delete_reviews)
  show "set (comments_rows (Title_delete d t))
     = {c \<in> set (comments_rows d).
          \<not> (\<exists>r \<in> set (reviews d). review_title r = title_id t \<and> review_id r = comments_review c)}"
    by (rule Title_delete_comments)
  show "titles (Title_delete d t) = [x \<leftarrow> titles d. title_id x \<noteq> title_id t]"
    and "categories (Title_delete d t) = categories d"
    and "users (Title_delete d t) = users d"
    by (simp_all add: Title_delete_def Let_def)
  show "review_title_fk (Title_delete d t)" if "review_title_fk d"
    using that by (rule Title_delete_review_fk)
  show "comments_review_fk (Title_delete d t)" if "comments_review_fk d"
    using that by (rule Title_delete_comments_fk)
  show "comments_rows (Review_delete d r)
     = [x \<leftarrow> comments_rows d. comments_review x \<noteq> review_id r]"
    and "reviews (Review_delete d r) = [x \<leftarrow> reviews d. review_id x \<noteq> review_id r]"
    and "titles (Review_delete d r) = titles d"
    by (simp_all add: Review_delete_def)
  show "comments_review_fk (Review_delete d r)" if "comments_review_fk d"
    using that by (rule Review_delete_comments_fk)
qed

theorem on_delete_effects_witness:
  "titles (Category_delete example_db books) = [dune\<lparr>title_category := None\<rparr>]
   \<and> title_category_fk (Category_delete example_db books)
   \<and> reviews (Title_delete example_db dune) = []
   \<and> comments_rows (Title_delete example_db dune) = []
   \<and> comments_review_fk (Title_delete example_db dune)
   \<and> review_title_fk (Title_delete example_db dune)
   \<and> comments_rows (Review_delete example_db review_alice) = []
   \<and> reviews (Review_delete example_db review_alice) = [review_bob]
   \<and> comments_review_fk (Review_delete example_db review_alice)"
proof -
  note th = on_delete_effects [where d = example_db and c = books and t = dune and r = review_alice]
  have fk1: "title_category_fk example_db"
    by (simp add: title_category_fk_def ex_defs)
  have fk2: "comments_review_fk example_db"
    by (simp add: comments_review_fk_def ex_defs)
  have ids: "distinct (map review_id (reviews example_db))"
    by (simp add: ex_defs)
  have 1: "titles (Category_delete example_db books) = [dune\<lparr>title_category := None\<rparr>]"
    by (simp add: Category_delete_def ex_defs)
  have 2: "title_category_fk (Category_delete example_db books)"
    using th fk1 by blast
  have "reviews (Title_delete example_db dune)
      = [r \<leftarrow> reviews example_db. review_title r \<noteq> title_id dune]"
    using th ids by blast
  then have 3: "reviews (Title_delete example_db dune) = []"
    by (simp add: ex_defs)
  have "set (comments_rows (Title_delete example_db dune))
     = {c \<in> set (comments_rows example_db).
          \<not> (\<exists>r \<in> set (reviews example_db).
                review_title r = title_id dune \<and> review_id r = comments_review c)}"
    using th by blast
  then have "set (comments_rows (Title_delete example_db dune)) = {}"
    by (simp add: ex_defs)
  then have 4: "comments_rows (Title_delete example_db dune) = []"
    by simp
  have 5: "comments_review_fk (Title_delete example_db dune)"
    using th fk2 by blast
  have fk3: "review_title_fk example_db"
    by (simp add: review_title_fk_def ex_defs)
  have 9: "review_title_fk (Title_delete example_db dune)"
    using th fk3 by blast
  have "comments_rows (Review_delete example_db review_alice)
     = [x \<leftarrow> comments_rows example_db. comments_review x \<noteq> review_id review_alice]"
    using th by blast
  then have 6: "comments_rows (Review_delete example_db review_alice) = []"
    by (simp add: ex_defs)
  have "reviews (Review_delete example_db review_alice)
      = [x \<leftarrow> reviews example_db. review_id x \<noteq> review_id review_alice]"
    using th by blast
  then have 7: "reviews (Review_delete example_db review_alice) = [review_bob]"
    by (simp add: ex_defs)
  have 8: "comments_review_fk (Review_delete example_db review_alice)"
    using th fk2 by blast
  from 1 2 3 4 5 6 7 8 9 show ?thesis by blast
qed

end
